theory Spec2Isabelle
  imports Complex_Main "HOL-Library.Char_ord" "HOL-Library.List_Lexorder"
begin

section \<open>Checkout and payment settlement of the ecommerce backend\<close>

text \<open>
  A shallow embedding of \<^verbatim>\<open>OrdersService\<close>, \<^verbatim>\<open>CartService\<close>, \<^verbatim>\<open>VNPayService\<close>,
  \<^verbatim>\<open>StripeService\<close> and \<^verbatim>\<open>PaymentsService\<close>. Strings are byte strings (the UTF-8
  bytes of the JavaScript string), money is an exact rational (the columns are
  \<^verbatim>\<open>DECIMAL(10, 2)\<close>; the rounding error of JavaScript's doubles is not modelled),
  integers are unbounded, and the database is a record of tables
  that every operation takes and returns. Exceptions are values: a function that can throw
  returns \<open>exception + 'a\<close> together with the database it leaves behind.
\<close>

subsection \<open>Strings and numbers\<close>

definition digit_char :: "nat \<Rightarrow> char" where
  "digit_char d = char_of (48 + d)"

definition is_digit :: "char \<Rightarrow> bool" where
  "is_digit c = (48 \<le> (of_char c :: nat) \<and> (of_char c :: nat) \<le> 57)"

text \<open>\<^verbatim>\<open>String(n)\<close> for a natural number: its decimal digits.\<close>

fun string_of_nat :: "nat \<Rightarrow> string" where
  "string_of_nat n =
     (if n < 10 then [digit_char n] else string_of_nat (n div 10) @ [digit_char (n mod 10)])"

declare string_of_nat.simps [simp del]

definition string_of_int :: "int \<Rightarrow> string" where
  "string_of_int i = (if i < 0 then CHR ''-'' # string_of_nat (nat (- i)) else string_of_nat (nat i))"

text \<open>The number a string of decimal digits denotes.\<close>

definition int_of_digits :: "string \<Rightarrow> int" where
  "int_of_digits s = foldl (\<lambda>n c. 10 * n + ((of_char c :: int) - 48)) 0 s"

text \<open>\<^verbatim>\<open>s.padStart(n, c)\<close> for a one-character pad: pads on the left up to length \<open>n\<close>,
  and leaves a longer string as it is.\<close>

definition padStart :: "nat \<Rightarrow> char \<Rightarrow> string \<Rightarrow> string" where
  "padStart n c s = replicate (n - length s) c @ s"

text \<open>\<^verbatim>\<open>Math.round\<close>: the nearest integer, a half rounded up.\<close>

definition Math_round :: "rat \<Rightarrow> int" where
  "Math_round x = \<lfloor>x + 1 / 2\<rfloor>"

definition toLowerCase_char :: "char \<Rightarrow> char" where
  "toLowerCase_char c =
     (if 65 \<le> (of_char c :: nat) \<and> (of_char c :: nat) \<le> 90 then char_of ((of_char c :: nat) + 32) else c)"

subsection \<open>JavaScript objects and \<^verbatim>\<open>URLSearchParams\<close>\<close>

text \<open>
  An object with string keys is the list of its properties in insertion order. Enumeration
  (\<^verbatim>\<open>Object.keys\<close>, \<^verbatim>\<open>Object.entries\<close>, the spread, \<^verbatim>\<open>new URLSearchParams(obj)\<close>) visits
  the array-index keys first, in ascending numeric order, then the other keys in insertion
  order. An assignment \<^verbatim>\<open>obj[k] = v\<close> replaces the value of an existing key in place and
  appends a new key.
\<close>

type_synonym 'v js_object = "(string \<times> 'v) list"

text \<open>An array index is a canonical numeric string (digits, no leading zero) that denotes a
  number below \<open>2\<^sup>3\<^sup>2 - 1\<close>.\<close>

definition is_array_index :: "string \<Rightarrow> bool" where
  "is_array_index k =
     (case k of
        [] \<Rightarrow> False
      | c # cs \<Rightarrow> list_all is_digit k \<and> (c \<noteq> CHR ''0'' \<or> cs = []) \<and> int_of_digits k < 4294967295)"

definition own_keys :: "'v js_object \<Rightarrow> string list" where
  "own_keys obj =
     sort_key int_of_digits (filter is_array_index (map fst obj)) @
     filter (\<lambda>k. \<not> is_array_index k) (map fst obj)"

definition entries :: "'v js_object \<Rightarrow> (string \<times> 'v) list" where
  "entries obj = List.map_filter (\<lambda>k. map_option (Pair k) (map_of obj k)) (own_keys obj)"

definition obj_set :: "string \<Rightarrow> 'v \<Rightarrow> 'v js_object \<Rightarrow> 'v js_object" where
  "obj_set k v obj =
     (if k \<in> fst ` set obj then map (\<lambda>(k', v'). if k' = k then (k', v) else (k', v')) obj
      else obj @ [(k, v)])"

text \<open>An object built from the empty one by a sequence of assignments.\<close>

definition obj_from_entries :: "(string \<times> 'v) list \<Rightarrow> 'v js_object" where
  "obj_from_entries es = foldl (\<lambda>obj (k, v). obj_set k v obj) [] es"

text \<open>
  The \<^verbatim>\<open>application/x-www-form-urlencoded\<close> serialisation behind
  \<^verbatim>\<open>URLSearchParams.toString()\<close>: a byte is kept when it is an ASCII letter or digit or one
  of \<^verbatim>\<open>* - . _\<close>, a space becomes \<^verbatim>\<open>+\<close>, every other byte becomes \<^verbatim>\<open>%XX\<close> in upper-case
  hexadecimal; the pairs are written \<^verbatim>\<open>name=value\<close> and joined by \<^verbatim>\<open>&\<close>.
\<close>

definition url_unreserved :: "char \<Rightarrow> bool" where
  "url_unreserved c =
     (let n = (of_char c :: nat) in
        (48 \<le> n \<and> n \<le> 57) \<or> (65 \<le> n \<and> n \<le> 90) \<or> (97 \<le> n \<and> n \<le> 122) \<or>
        n = 42 \<or> n = 45 \<or> n = 46 \<or> n = 95)"

definition hex_digit :: "nat \<Rightarrow> char" where
  "hex_digit d = (if d < 10 then char_of (48 + d) else char_of (55 + d))"

definition url_encode_byte :: "char \<Rightarrow> string" where
  "url_encode_byte c =
     (if url_unreserved c then [c]
      else if c = CHR '' '' then ''+''
      else [CHR ''%'', hex_digit ((of_char c :: nat) div 16), hex_digit ((of_char c :: nat) mod 16)])"

definition url_encode :: "string \<Rightarrow> string" where
  "url_encode s = concat (map url_encode_byte s)"

definition url_pair :: "string \<times> string \<Rightarrow> string" where
  "url_pair p = url_encode (fst p) @ ''='' @ url_encode (snd p)"

fun url_join :: "string list \<Rightarrow> string" where
  "url_join [] = []"
| "url_join [p] = p"
| "url_join (p # q # ps) = p @ ''&'' @ url_join (q # ps)"

definition URLSearchParams_toString :: "string js_object \<Rightarrow> string" where
  "URLSearchParams_toString obj = url_join (map url_pair (entries obj))"

subsection \<open>VNPayService\<close>

text \<open>
  The keyed digest \<^verbatim>\<open>crypto.createHmac('sha512', key).update(data).digest('hex')\<close> belongs to
  the platform; it is a parameter \<open>hmac\<close> of every function that signs or verifies.
\<close>

record VNPayConfig =
  tmnCode :: string
  hashSecret :: string
  url :: string
  returnUrl :: string

text \<open>The body of the loop in \<^verbatim>\<open>sortObject\<close>: a key is copied when its value is neither
  \<^verbatim>\<open>undefined\<close> nor the empty string.\<close>

definition sortObject_entry :: "string js_object \<Rightarrow> string \<Rightarrow> (string \<times> string) option" where
  "sortObject_entry obj key =
     (case map_of obj key of None \<Rightarrow> None | Some v \<Rightarrow> if v \<noteq> [] then Some (key, v) else None)"

definition sortObject :: "string js_object \<Rightarrow> string js_object" where
  "sortObject obj = obj_from_entries (List.map_filter (sortObject_entry obj) (sort (own_keys obj)))"

record ValidateResult =
  v_isValid :: bool
  v_responseCode :: "string option"
  v_orderId :: "string option"
  v_transactionNo :: "string option"

text \<open>The copy of the returned parameters with the two hash fields set to \<^verbatim>\<open>undefined\<close>
  (which is \<open>None\<close>), and the object of its defined values.\<close>

definition paramsToSign :: "string js_object \<Rightarrow> (string option) js_object" where
  "paramsToSign params =
     obj_set ''vnp_SecureHashType'' None
       (obj_set ''vnp_SecureHash'' None (map (\<lambda>(k, v). (k, Some v)) (entries params)))"

definition filteredParams :: "string js_object \<Rightarrow> string js_object" where
  "filteredParams params =
     obj_from_entries
       (List.map_filter (\<lambda>(key, val). map_option (Pair key) val) (entries (paramsToSign params)))"

definition signData :: "string js_object \<Rightarrow> string" where
  "signData params = URLSearchParams_toString (sortObject (filteredParams params))"

definition validateReturn ::
  "(string \<Rightarrow> string \<Rightarrow> string) \<Rightarrow> VNPayConfig \<Rightarrow> string js_object \<Rightarrow> ValidateResult" where
  "validateReturn hmac config params =
     (let secureHash = map_of params ''vnp_SecureHash'';
          checkSum = hmac (hashSecret config) (signData params)
      in \<lparr> v_isValid = (secureHash = Some checkSum),
           v_responseCode = map_of params ''vnp_ResponseCode'',
           v_orderId = map_of params ''vnp_TxnRef'',
           v_transactionNo = map_of params ''vnp_TransactionNo'' \<rparr>)"


definition isPaymentSuccessful :: "string option \<Rightarrow> bool" where
  "isPaymentSuccessful code = (code = Some ''00'')"

text \<open>The fixed table of response codes; a code outside it, or none, is an unknown error.\<close>

definition response_messages :: "(string \<times> string) list" where
  "response_messages =
     [(''00'', ''Transaction successful''),
      (''07'', ''Deducted money successfully. Transaction is suspected of fraud''),
      (''09'', ''Transaction failed: Card/Account not registered for InternetBanking''),
      (''10'', ''Transaction failed: Incorrect card/account information more than 3 times''),
      (''11'', ''Transaction failed: Payment timeout''),
      (''12'', ''Transaction failed: Card/Account is locked''),
      (''13'', ''Transaction failed: Incorrect OTP''),
      (''24'', ''Transaction cancelled by customer''),
      (''51'', ''Transaction failed: Insufficient balance''),
      (''65'', ''Transaction failed: Exceeded daily transaction limit''),
      (''75'', ''Bank is under maintenance''),
      (''79'', ''Transaction failed: Incorrect payment password''),
      (''99'', ''Other errors'')]"

definition getResponseMessage :: "string option \<Rightarrow> string" where
  "getResponseMessage code =
     (case code of
        None \<Rightarrow> ''Unknown error''
      | Some c \<Rightarrow> (case map_of response_messages c of
                     None \<Rightarrow> ''Unknown error''
                   | Some m \<Rightarrow> if m = [] then ''Unknown error'' else m))"


text \<open>
  \<^verbatim>\<open>createPaymentUrl\<close>: the two timestamps are \<^verbatim>\<open>formatDate\<close> of the platform's clock and
  of fifteen minutes later; they are parameters.
\<close>

definition createPaymentUrl_params ::
  "VNPayConfig \<Rightarrow> string \<Rightarrow> rat \<Rightarrow> string \<Rightarrow> string \<Rightarrow> string \<Rightarrow> string js_object" where
  "createPaymentUrl_params config order_number order_total ipAddr createDate expireDate =
     [(''vnp_Version'', ''2.1.0''),
      (''vnp_Command'', ''pay''),
      (''vnp_TmnCode'', tmnCode config),
      (''vnp_Locale'', ''vn''),
      (''vnp_CurrCode'', ''VND''),
      (''vnp_TxnRef'', order_number),
      (''vnp_OrderInfo'', ''Payment for order '' @ order_number),
      (''vnp_OrderType'', ''other''),
      (''vnp_Amount'', string_of_int (Math_round (order_total * 100))),
      (''vnp_ReturnUrl'', returnUrl config),
      (''vnp_IpAddr'', ipAddr),
      (''vnp_CreateDate'', createDate),
      (''vnp_ExpireDate'', expireDate)]"

definition createPaymentUrl ::
  "(string \<Rightarrow> string \<Rightarrow> string) \<Rightarrow> VNPayConfig \<Rightarrow> string \<Rightarrow> rat \<Rightarrow> string \<Rightarrow> string \<Rightarrow> string \<Rightarrow> string" where
  "createPaymentUrl hmac config order_number order_total ipAddr createDate expireDate =
     (let sortedParams =
            sortObject (createPaymentUrl_params config order_number order_total ipAddr createDate expireDate);
          signed = hmac (hashSecret config) (URLSearchParams_toString sortedParams);
          queryString = URLSearchParams_toString (obj_set ''vnp_SecureHash'' signed sortedParams)
      in url config @ ''?'' @ queryString)"

subsection \<open>Entities and the database\<close>

text \<open>
  The entities of the schema, with the columns the modelled code reads or writes. The
  generated primary keys of cart items, order items and shipping addresses are never read
  and are left out. A timestamp is a number of milliseconds.
\<close>

datatype OrderStatus = PENDING | PROCESSING | SHIPPED | DELIVERED | CANCELLED

datatype PaymentStatus = PAYMENT_PENDING | PAID | FAILED | REFUNDED

datatype exception =
    BadRequestException string
  | NotFoundException string
  | QueryFailedError string

record User =
  u_id :: string
  u_email :: string
  u_first_name :: string

record Product =
  p_id :: string
  p_name :: string
  p_price :: rat
  p_stock_quantity :: int

record Cart =
  c_id :: string
  c_user_id :: "string option"
  c_session_id :: "string option"

record CartItem =
  ci_cart_id :: string
  ci_product_id :: string
  ci_quantity :: int
  ci_price :: rat

record Order =
  o_id :: string
  o_user_id :: string
  o_order_number :: string
  o_status :: OrderStatus
  o_payment_status :: PaymentStatus
  o_payment_method :: "string option"
  o_subtotal :: rat
  o_shipping_fee :: rat
  o_tax :: rat
  o_discount :: rat
  o_total :: rat
  o_currency :: string
  o_notes :: "string option"
  o_created_at :: int

record OrderItem =
  oi_order_id :: string
  oi_product_id :: string
  oi_product_name :: "string option"
  oi_product_sku :: "string option"
  oi_quantity :: int
  oi_price :: rat
  oi_subtotal :: rat

record ShippingAddress =
  sa_order_id :: string
  sa_first_name :: string
  sa_last_name :: string
  sa_email :: "string option"
  sa_phone :: "string option"
  sa_address_line1 :: string
  sa_address_line2 :: "string option"
  sa_city :: string
  sa_state :: "string option"
  sa_postal_code :: "string option"
  sa_country :: string

text \<open>A request handed to the mail provider by \<^verbatim>\<open>sendOrderConfirmationEmail\<close> (the HTML body
  is not modelled).\<close>

record Mail =
  mail_to :: string
  mail_subject :: string

record db =
  users :: "User list"
  products :: "Product list"
  carts :: "Cart list"
  cart_items :: "CartItem list"
  orders :: "Order list"
  order_items :: "OrderItem list"
  shipping_addresses :: "ShippingAddress list"
  outbox :: "Mail list"
  console :: "string list"

text \<open>An order as a query loads it, with the relations \<^verbatim>\<open>items\<close>, \<^verbatim>\<open>user\<close> and
  \<^verbatim>\<open>shipping_address\<close>.\<close>

record LoadedOrder =
  lo_order :: Order
  lo_items :: "OrderItem list"
  lo_user :: "User option"
  lo_shipping_address :: "ShippingAddress option"

definition load_relations :: "db \<Rightarrow> Order \<Rightarrow> LoadedOrder" where
  "load_relations w ord =
     \<lparr> lo_order = ord,
       lo_items = filter (\<lambda>i. oi_order_id i = o_id ord) (order_items w),
       lo_user = find (\<lambda>u. u_id u = o_user_id ord) (users w),
       lo_shipping_address = find (\<lambda>a. sa_order_id a = o_id ord) (shipping_addresses w) \<rparr>"

text \<open>\<^verbatim>\<open>orderRepository.update(id, partial)\<close>: the partial update of the rows with that id.\<close>

definition update_order :: "string \<Rightarrow> (Order \<Rightarrow> Order) \<Rightarrow> db \<Rightarrow> db" where
  "update_order oid f w = w\<lparr>orders := map (\<lambda>ord. if o_id ord = oid then f ord else ord) (orders w)\<rparr>"

text \<open>
  The collaborators outside the repository: the keyed digest, the mail provider (\<open>True\<close>
  when it accepts a request, \<open>False\<close> when it answers with an error or throws), the Stripe
  SDK (creating an intent from amount, currency, order id and order number; constructing a
  verified webhook event from payload, signature header and secret), the configuration,
  and what the object-relational mapper's \<^verbatim>\<open>findOne\<close> returns for a criterion whose value
  is \<^verbatim>\<open>undefined\<close>.
\<close>

record PaymentIntent =
  pi_id :: string
  pi_client_secret :: "string option"

record PaymentData =
  pd_id :: string
  pd_metadata_order_id :: "string option"

record StripeEvent =
  ev_type :: string
  ev_object :: PaymentData

record env =
  hmac_sha512 :: "string \<Rightarrow> string \<Rightarrow> string"
  vnpay_config :: VNPayConfig
  resend_send :: "Mail \<Rightarrow> bool"
  stripe_paymentIntents_create :: "int \<Rightarrow> string \<Rightarrow> string \<Rightarrow> string \<Rightarrow> string + PaymentIntent"
  stripe_constructEvent :: "string \<Rightarrow> string \<Rightarrow> string \<Rightarrow> string + StripeEvent"
  stripe_webhook_secret :: "string option"
  findOne_undefined :: "Order list \<Rightarrow> Order option"

subsection \<open>MailService and StripeService\<close>

text \<open>The provider's error and its exception are both logged and swallowed.\<close>

definition sendOrderConfirmationEmail :: "env \<Rightarrow> string \<Rightarrow> string \<Rightarrow> Order \<Rightarrow> OrderItem list \<Rightarrow> db \<Rightarrow> db" where
  "sendOrderConfirmationEmail e email name ord its w =
     (let m = \<lparr> mail_to = email, mail_subject = ''Order Confirmed - '' @ o_order_number ord \<rparr>;
          w1 = w\<lparr>outbox := outbox w @ [m]\<rparr>
      in if resend_send e m
         then w1\<lparr>console := console w1 @ [''Order confirmation email sent to '' @ email]\<rparr>
         else w1\<lparr>console := console w1 @ [''Failed to send order confirmation email'']\<rparr>)"

definition createPaymentIntent :: "env \<Rightarrow> Order \<Rightarrow> exception + PaymentIntent" where
  "createPaymentIntent e ord =
     (case stripe_paymentIntents_create e (Math_round (o_total ord * 100))
             (map toLowerCase_char (o_currency ord)) (o_id ord) (o_order_number ord) of
        Inl msg \<Rightarrow> Inl (BadRequestException (''Payment setup failed: '' @ msg))
      | Inr intent \<Rightarrow> Inr intent)"

definition constructWebhookEvent :: "env \<Rightarrow> string \<Rightarrow> string \<Rightarrow> exception + StripeEvent" where
  "constructWebhookEvent e payload signature =
     (case stripe_webhook_secret e of
        None \<Rightarrow> Inl (BadRequestException ''Webhook secret not configured'')
      | Some webhookSecret \<Rightarrow>
          if webhookSecret = [] then Inl (BadRequestException ''Webhook secret not configured'')
          else (case stripe_constructEvent e payload signature webhookSecret of
                  Inl msg \<Rightarrow> Inl (BadRequestException (''Webhook signature verification failed: '' @ msg))
                | Inr event \<Rightarrow> Inr event))"


subsection \<open>PaymentsService\<close>

text \<open>How a template literal prints a value that may be \<^verbatim>\<open>undefined\<close>.\<close>

definition template_string :: "string option \<Rightarrow> string" where
  "template_string v = (case v of None \<Rightarrow> ''undefined'' | Some s \<Rightarrow> s)"

definition findOrderForPayment :: "string \<Rightarrow> string \<Rightarrow> db \<Rightarrow> exception + LoadedOrder" where
  "findOrderForPayment orderId userId w =
     (case find (\<lambda>ord. o_id ord = orderId \<and> o_user_id ord = userId) (orders w) of
        None \<Rightarrow> Inl (NotFoundException ''Order not found'')
      | Some ord \<Rightarrow>
          if o_payment_status ord = PAID then Inl (BadRequestException ''Order already paid'')
          else if o_payment_status ord = REFUNDED then Inl (BadRequestException ''Order has been refunded'')
          else Inr (load_relations w ord))"

definition markOrderPaid :: "env \<Rightarrow> LoadedOrder \<Rightarrow> string \<Rightarrow> db \<Rightarrow> db" where
  "markOrderPaid e lo transactionId w =
     (let ord = lo_order lo;
          w1 = update_order (o_id ord) (\<lambda>r. r\<lparr>o_payment_status := PAID, o_status := PROCESSING\<rparr>) w;
          w2 = (case lo_user lo of
                  None \<Rightarrow> w1
                | Some u \<Rightarrow>
                    if u_email u \<noteq> []
                    then sendOrderConfirmationEmail e (u_email u) (u_first_name u) ord (lo_items lo) w1
                    else w1)
      in w2\<lparr>console := console w2 @
           [''Order '' @ o_order_number ord @ '' marked as paid (Transaction: '' @ transactionId @ '')'']\<rparr>)"

definition markOrderPaymentFailed :: "LoadedOrder \<Rightarrow> db \<Rightarrow> db" where
  "markOrderPaymentFailed lo w =
     (let ord = lo_order lo;
          w1 = update_order (o_id ord) (\<lambda>r. r\<lparr>o_payment_status := FAILED\<rparr>) w
      in w1\<lparr>console := console w1 @ [''Order '' @ o_order_number ord @ '' payment failed'']\<rparr>)"

record StripeIntentResult =
  si_clientSecret :: "string option"
  si_paymentIntentId :: string
  si_amount :: rat
  si_currency :: string

definition createStripePaymentIntent ::
  "env \<Rightarrow> string \<Rightarrow> string \<Rightarrow> db \<Rightarrow> (exception + StripeIntentResult) \<times> db" where
  "createStripePaymentIntent e orderId userId w =
     (case findOrderForPayment orderId userId w of
        Inl ex \<Rightarrow> (Inl ex, w)
      | Inr lo \<Rightarrow>
          (case createPaymentIntent e (lo_order lo) of
             Inl ex \<Rightarrow> (Inl ex, w\<lparr>console := console w @ [''Stripe PaymentIntent creation failed'']\<rparr>)
           | Inr paymentIntent \<Rightarrow>
               (Inr \<lparr> si_clientSecret = pi_client_secret paymentIntent,
                      si_paymentIntentId = pi_id paymentIntent,
                      si_amount = o_total (lo_order lo),
                      si_currency = o_currency (lo_order lo) \<rparr>,
                update_order (o_id (lo_order lo)) (\<lambda>r. r\<lparr>o_payment_method := Some ''stripe''\<rparr>) w)))"

record VNPayUrlResult =
  vu_paymentUrl :: string
  vu_orderNumber :: string

definition createVNPayPaymentUrl ::
  "env \<Rightarrow> string \<Rightarrow> string \<Rightarrow> string \<Rightarrow> string \<Rightarrow> string \<Rightarrow> db \<Rightarrow> (exception + VNPayUrlResult) \<times> db" where
  "createVNPayPaymentUrl e createDate expireDate orderId userId ipAddr w =
     (case findOrderForPayment orderId userId w of
        Inl ex \<Rightarrow> (Inl ex, w)
      | Inr lo \<Rightarrow>
          (Inr \<lparr> vu_paymentUrl =
                   createPaymentUrl (hmac_sha512 e) (vnpay_config e) (o_order_number (lo_order lo))
                     (o_total (lo_order lo)) ipAddr createDate expireDate,
                 vu_orderNumber = o_order_number (lo_order lo) \<rparr>,
           update_order (o_id (lo_order lo)) (\<lambda>r. r\<lparr>o_payment_method := Some ''vnpay''\<rparr>) w))"

definition handlePaymentSuccess :: "env \<Rightarrow> PaymentData \<Rightarrow> string \<Rightarrow> db \<Rightarrow> db" where
  "handlePaymentSuccess e paymentData method w =
     (case pd_metadata_order_id paymentData of
        None \<Rightarrow> w\<lparr>console := console w @ [''No order ID in payment metadata'']\<rparr>
      | Some orderId \<Rightarrow>
          if orderId = [] then w\<lparr>console := console w @ [''No order ID in payment metadata'']\<rparr>
          else (case find (\<lambda>ord. o_id ord = orderId) (orders w) of
                  None \<Rightarrow> w\<lparr>console := console w @ [''Order not found: '' @ orderId]\<rparr>
                | Some ord \<Rightarrow> markOrderPaid e (load_relations w ord) (pd_id paymentData) w))"

definition handlePaymentFailed :: "env \<Rightarrow> PaymentData \<Rightarrow> string \<Rightarrow> db \<Rightarrow> db" where
  "handlePaymentFailed e paymentData method w =
     (case pd_metadata_order_id paymentData of
        None \<Rightarrow> w
      | Some orderId \<Rightarrow>
          if orderId = [] then w
          else (case find (\<lambda>ord. o_id ord = orderId) (orders w) of
                  None \<Rightarrow> w
                | Some ord \<Rightarrow> markOrderPaymentFailed (load_relations w ord) w))"

text \<open>The handler answers \<^verbatim>\<open>{ received: true }\<close> unless the event cannot be constructed.\<close>

definition handleStripeWebhook :: "env \<Rightarrow> string \<Rightarrow> string \<Rightarrow> db \<Rightarrow> (exception + bool) \<times> db" where
  "handleStripeWebhook e payload signature w =
     (case constructWebhookEvent e payload signature of
        Inl ex \<Rightarrow> (Inl ex, w)
      | Inr event \<Rightarrow>
          (Inr True,
           if ev_type event = ''payment_intent.succeeded''
           then handlePaymentSuccess e (ev_object event) ''stripe'' w
           else if ev_type event = ''payment_intent.payment_failed''
           then handlePaymentFailed e (ev_object event) ''stripe'' w
           else w\<lparr>console := console w @ [''Unhandled Stripe event type: '' @ ev_type event]\<rparr>))"

record VNPayReturnResult =
  vr_success :: bool
  vr_message :: string
  vr_orderId :: string
  vr_orderNumber :: string

definition handleVNPayReturn :: "env \<Rightarrow> string js_object \<Rightarrow> db \<Rightarrow> (exception + VNPayReturnResult) \<times> db" where
  "handleVNPayReturn e params w =
     (let result = validateReturn (hmac_sha512 e) (vnpay_config e) params
      in if \<not> v_isValid result then (Inl (BadRequestException ''Invalid VNPay signature''), w)
         else
           (case (case v_orderId result of
                    None \<Rightarrow> findOne_undefined e (orders w)
                  | Some n \<Rightarrow> find (\<lambda>ord. o_order_number ord = n) (orders w)) of
              None \<Rightarrow> (Inl (NotFoundException ''Order not found''), w)
            | Some ord \<Rightarrow>
                (Inr \<lparr> vr_success = isPaymentSuccessful (v_responseCode result),
                       vr_message = getResponseMessage (v_responseCode result),
                       vr_orderId = o_id ord,
                       vr_orderNumber = o_order_number ord \<rparr>,
                 if isPaymentSuccessful (v_responseCode result)
                 then markOrderPaid e (load_relations w ord) (template_string (v_transactionNo result)) w
                 else markOrderPaymentFailed (load_relations w ord) w)))"

subsection \<open>PaymentsController\<close>

record IPNResponse =
  RspCode :: string
  Message :: string

text \<open>The IPN handler has no \<^verbatim>\<open>try\<close>: an exception of the service is its own.\<close>

definition handleVNPayIPN :: "env \<Rightarrow> string js_object \<Rightarrow> db \<Rightarrow> (exception + IPNResponse) \<times> db" where
  "handleVNPayIPN e query w =
     (case handleVNPayReturn e query w of
        (Inl ex, w') \<Rightarrow> (Inl ex, w')
      | (Inr result, w') \<Rightarrow>
          (Inr \<lparr> RspCode = (if vr_success result then ''00'' else ''99''),
                 Message = vr_message result \<rparr>, w'))"

subsection \<open>CartService\<close>

text \<open>A value is truthy unless it is \<^verbatim>\<open>undefined\<close>, \<^verbatim>\<open>null\<close> or the empty string;
  \<^verbatim>\<open>a || b\<close> is \<open>a\<close> when \<open>a\<close> is truthy and \<open>b\<close> otherwise.\<close>

definition truthy :: "string option \<Rightarrow> bool" where
  "truthy v = (case v of None \<Rightarrow> False | Some s \<Rightarrow> s \<noteq> [])"

definition or_else :: "string option \<Rightarrow> string option \<Rightarrow> string option" where
  "or_else a b = (if truthy a then a else b)"

text \<open>
  An awaited database call can throw. Which one does, if any, is an input of the model:
  a \<open>fault\<close> names the call that fails (the loops' calls by the index of the cart line).
  The exception a failed call throws is \<open>database_error\<close>.
\<close>

datatype fault =
    FailGetCart
  | FailStartTransaction
  | FailFindProduct nat
  | FailGenerateOrderNumber
  | FailSaveOrder
  | FailSaveItem nat
  | FailSaveAddress
  | FailUpdateStock nat
  | FailClearCartFind
  | FailClearCartDelete
  | FailClearCartReload
  | FailCommit
  | FailFindOne

definition database_error :: exception where
  "database_error = QueryFailedError ''database error''"

text \<open>The identifiers \<^verbatim>\<open>uuidv4()\<close> hands out on insertion.\<close>

record Fresh =
  new_order_id :: string
  new_cart_id :: string

record CartLine =
  cl_product_id :: string
  cl_product_name :: "string option"
  cl_quantity :: int
  cl_price :: rat
  cl_line_total :: rat

record CartResponse =
  cr_id :: string
  cr_items :: "CartLine list"
  cr_subtotal :: rat
  cr_itemCount :: int

definition getOrCreateCart ::
  "Fresh \<Rightarrow> string option \<Rightarrow> string option \<Rightarrow> db \<Rightarrow> (Cart \<times> CartItem list) \<times> db" where
  "getOrCreateCart fresh userId sessionId w =
     (case (if truthy userId then find (\<lambda>c. c_user_id c = userId) (carts w)
            else if truthy sessionId then find (\<lambda>c. c_session_id c = sessionId) (carts w)
            else None) of
        Some cart \<Rightarrow> ((cart, filter (\<lambda>i. ci_cart_id i = c_id cart) (cart_items w)), w)
      | None \<Rightarrow>
          (let newCart = \<lparr> c_id = new_cart_id fresh, c_user_id = userId,
                           c_session_id = (if truthy userId then None else sessionId) \<rparr>
           in ((newCart, []), w\<lparr>carts := carts w @ [newCart]\<rparr>)))"

definition cart_line :: "db \<Rightarrow> CartItem \<Rightarrow> CartLine" where
  "cart_line w item =
     \<lparr> cl_product_id = ci_product_id item,
       cl_product_name = map_option p_name (find (\<lambda>p. p_id p = ci_product_id item) (products w)),
       cl_quantity = ci_quantity item,
       cl_price = ci_price item,
       cl_line_total = ci_price item * of_int (ci_quantity item) \<rparr>"

definition formatCartResponse :: "db \<Rightarrow> Cart \<times> CartItem list \<Rightarrow> CartResponse" where
  "formatCartResponse w cart =
     (let formattedItems = map (cart_line w) (snd cart);
          subtotal = sum_list (map cl_line_total formattedItems);
          itemCount = sum_list (map cl_quantity formattedItems)
      in \<lparr> cr_id = c_id (fst cart),
           cr_items = formattedItems,
           cr_subtotal = of_int (Math_round (subtotal * 100)) / 100,
           cr_itemCount = itemCount \<rparr>)"

definition getCart :: "Fresh \<Rightarrow> string option \<Rightarrow> string option \<Rightarrow> db \<Rightarrow> CartResponse \<times> db" where
  "getCart fresh userId sessionId w =
     (case getOrCreateCart fresh userId sessionId w of
        (cart, w') \<Rightarrow> (formatCartResponse w' cart, w'))"

text \<open>\<^verbatim>\<open>clearCart\<close> works on the service's own repositories: its delete is committed at once,
  whatever transaction the caller has open.\<close>

definition clearCart ::
  "fault option \<Rightarrow> Fresh \<Rightarrow> string option \<Rightarrow> string option \<Rightarrow> db \<Rightarrow> (exception + CartResponse) \<times> db" where
  "clearCart flt fresh userId sessionId w =
     (if flt = Some FailClearCartFind then (Inl database_error, w)
      else
        (case getOrCreateCart fresh userId sessionId w of
           ((cart, items), w1) \<Rightarrow>
             if flt = Some FailClearCartDelete then (Inl database_error, w1)
             else
               (let w2 = w1\<lparr>cart_items := filter (\<lambda>i. ci_cart_id i \<noteq> c_id cart) (cart_items w1)\<rparr>
                in if flt = Some FailClearCartReload then (Inl database_error, w2)
                   else (case getCart fresh userId sessionId w2 of
                           (response, w3) \<Rightarrow> (Inr response, w3)))))"

subsection \<open>OrdersService\<close>

text \<open>The platform's clock: \<^verbatim>\<open>new Date().toISOString()\<close>, the timestamp of the local midnight
  before it, and the timestamp the database gives a new row.\<close>

record Clock =
  now_iso :: string
  today_start :: int
  now_ms :: int

definition generateOrderNumber :: "Clock \<Rightarrow> db \<Rightarrow> string" where
  "generateOrderNumber clk w =
     (let dateStr = filter (\<lambda>c. c \<noteq> CHR ''-'') (take 10 (now_iso clk));
          count = length (filter (\<lambda>r. today_start clk \<le> o_created_at r) (orders w));
          sequence = padStart 4 (CHR ''0'') (string_of_nat (count + 1))
      in ''ORD-'' @ dateStr @ ''-'' @ sequence)"

text \<open>\<^verbatim>\<open>findOne\<close> adds the condition on the owner only when a truthy user id is given.\<close>

definition owner_condition :: "string option \<Rightarrow> Order \<Rightarrow> bool" where
  "owner_condition userId r = (if truthy userId then Some (o_user_id r) = userId else True)"

definition findOne :: "string \<Rightarrow> string option \<Rightarrow> db \<Rightarrow> exception + LoadedOrder" where
  "findOne oid userId w =
     (case find (\<lambda>r. o_id r = oid \<and> owner_condition userId r) (orders w) of
        None \<Rightarrow> Inl (NotFoundException ''Order not found'')
      | Some r \<Rightarrow> Inr (load_relations w r))"

record ShippingAddressDto =
  d_first_name :: string
  d_last_name :: string
  d_email :: "string option"
  d_phone :: "string option"
  d_address_line1 :: string
  d_address_line2 :: "string option"
  d_city :: string
  d_state :: "string option"
  d_postal_code :: "string option"
  d_country :: string

record CreateOrderDto =
  dto_shipping_address :: ShippingAddressDto
  dto_payment_method :: "string option"
  dto_notes :: "string option"

text \<open>Step 1 of \<^verbatim>\<open>createOrder\<close>: every cart line's product is read inside the transaction
  and its stock compared with the quantity.\<close>

fun createOrder_validate :: "fault option \<Rightarrow> nat \<Rightarrow> Product list \<Rightarrow> CartLine list \<Rightarrow> exception option" where
  "createOrder_validate flt i ps [] = None"
| "createOrder_validate flt i ps (item # rest) =
     (if flt = Some (FailFindProduct i) then Some database_error
      else (case find (\<lambda>p. p_id p = cl_product_id item) ps of
              None \<Rightarrow> Some (BadRequestException
                             (''Product not found: '' @ template_string (cl_product_name item)))
            | Some product \<Rightarrow>
                if p_stock_quantity product < cl_quantity item
                then Some (BadRequestException
                             (''Insufficient stock for '' @ p_name product @ ''. Available: '' @
                              string_of_int (p_stock_quantity product)))
                else createOrder_validate flt (Suc i) ps rest))"

definition order_item_of :: "string \<Rightarrow> CartLine \<Rightarrow> OrderItem" where
  "order_item_of oid cartItem =
     \<lparr> oi_order_id = oid,
       oi_product_id = cl_product_id cartItem,
       oi_product_name = cl_product_name cartItem,
       oi_product_sku = None,
       oi_quantity = cl_quantity cartItem,
       oi_price = cl_price cartItem,
       oi_subtotal = cl_line_total cartItem \<rparr>"

text \<open>Step 5: one order item per cart line, saved in turn.\<close>

fun createOrder_items ::
  "fault option \<Rightarrow> nat \<Rightarrow> string \<Rightarrow> CartLine list \<Rightarrow> db \<Rightarrow> (exception + OrderItem list) \<times> db" where
  "createOrder_items flt i oid [] w = (Inr [], w)"
| "createOrder_items flt i oid (cartItem # rest) w =
     (if flt = Some (FailSaveItem i) then (Inl database_error, w)
      else
        (let savedItem = order_item_of oid cartItem
         in (case createOrder_items flt (Suc i) oid rest (w\<lparr>order_items := order_items w @ [savedItem]\<rparr>) of
               (Inl ex, w') \<Rightarrow> (Inl ex, w')
             | (Inr orderItems, w') \<Rightarrow> (Inr (savedItem # orderItems), w'))))"

text \<open>Step 7: the relative update \<^verbatim>\<open>stock_quantity = stock_quantity - quantity\<close> of the
  product rows with the line's product id.\<close>

definition adjust_stock :: "string \<Rightarrow> int \<Rightarrow> Product list \<Rightarrow> Product list" where
  "adjust_stock pid delta ps =
     map (\<lambda>p. if p_id p = pid then p\<lparr>p_stock_quantity := p_stock_quantity p + delta\<rparr> else p) ps"

fun createOrder_reduce_stock :: "fault option \<Rightarrow> nat \<Rightarrow> CartLine list \<Rightarrow> db \<Rightarrow> exception option \<times> db" where
  "createOrder_reduce_stock flt i [] w = (None, w)"
| "createOrder_reduce_stock flt i (cartItem # rest) w =
     (if flt = Some (FailUpdateStock i) then (Some database_error, w)
      else createOrder_reduce_stock flt (Suc i) rest
             (w\<lparr>products := adjust_stock (cl_product_id cartItem) (- cl_quantity cartItem) (products w)\<rparr>))"

definition new_order :: "Clock \<Rightarrow> Fresh \<Rightarrow> string \<Rightarrow> CreateOrderDto \<Rightarrow> string \<Rightarrow> rat \<Rightarrow> Order" where
  "new_order clk fresh userId dto orderNumber subtotal =
     (let shippingFee = 0; tax = 0; discount = 0;
          order_total = subtotal + shippingFee + tax - discount
      in \<lparr> o_id = new_order_id fresh,
           o_user_id = userId,
           o_order_number = orderNumber,
           o_status = PENDING,
           o_payment_status = (if dto_payment_method dto = Some ''cod'' then PAYMENT_PENDING else PAYMENT_PENDING),
           o_payment_method = or_else (dto_payment_method dto) (Some ''cod''),
           o_subtotal = subtotal,
           o_shipping_fee = shippingFee,
           o_tax = tax,
           o_discount = discount,
           o_total = order_total,
           o_currency = ''USD'',
           o_notes = or_else (dto_notes dto) None,
           o_created_at = now_ms clk \<rparr>)"

definition new_shipping_address :: "string \<Rightarrow> ShippingAddressDto \<Rightarrow> string \<Rightarrow> ShippingAddress" where
  "new_shipping_address oid a userEmail =
     \<lparr> sa_order_id = oid,
       sa_first_name = d_first_name a,
       sa_last_name = d_last_name a,
       sa_email = or_else (d_email a) (Some userEmail),
       sa_phone = or_else (d_phone a) None,
       sa_address_line1 = d_address_line1 a,
       sa_address_line2 = or_else (d_address_line2 a) None,
       sa_city = d_city a,
       sa_state = or_else (d_state a) None,
       sa_postal_code = or_else (d_postal_code a) None,
       sa_country = d_country a \<rparr>"

text \<open>
  The body of the \<^verbatim>\<open>try\<close> block up to the commit. The order number is unique and the id
  is the primary key: saving an order that repeats either fails. The writes through
  \<^verbatim>\<open>queryRunner.manager\<close> are the transaction's; \<^verbatim>\<open>clearCart\<close> is not among them.
\<close>

definition createOrder_try ::
  "fault option \<Rightarrow> Clock \<Rightarrow> Fresh \<Rightarrow> string \<Rightarrow> CreateOrderDto \<Rightarrow> string \<Rightarrow> CartResponse \<Rightarrow> db \<Rightarrow>
     (exception + Order \<times> OrderItem list \<times> ShippingAddress) \<times> db" where
  "createOrder_try flt clk fresh userId dto userEmail cart w =
     (case createOrder_validate flt 0 (products w) (cr_items cart) of
        Some ex \<Rightarrow> (Inl ex, w)
      | None \<Rightarrow>
          if flt = Some FailGenerateOrderNumber then (Inl database_error, w)
          else
            (let ord = new_order clk fresh userId dto (generateOrderNumber clk w) (cr_subtotal cart)
             in if flt = Some FailSaveOrder then (Inl database_error, w)
                else if \<exists>r \<in> set (orders w). o_id r = o_id ord \<or> o_order_number r = o_order_number ord
                then (Inl (QueryFailedError ''Duplicate entry''), w)
                else
                  (case createOrder_items flt 0 (o_id ord) (cr_items cart) (w\<lparr>orders := orders w @ [ord]\<rparr>) of
                     (Inl ex, w1) \<Rightarrow> (Inl ex, w1)
                   | (Inr orderItems, w1) \<Rightarrow>
                       if flt = Some FailSaveAddress then (Inl database_error, w1)
                       else
                         (let shippingAddress =
                                new_shipping_address (o_id ord) (dto_shipping_address dto) userEmail;
                              w2 = w1\<lparr>shipping_addresses := shipping_addresses w1 @ [shippingAddress]\<rparr>
                          in (case createOrder_reduce_stock flt 0 (cr_items cart) w2 of
                                (Some ex, w3) \<Rightarrow> (Inl ex, w3)
                              | (None, w3) \<Rightarrow>
                                  (case clearCart flt fresh (Some userId) None w3 of
                                     (Inl ex, w4) \<Rightarrow> (Inl ex, w4)
                                   | (Inr _, w4) \<Rightarrow>
                                       if flt = Some FailCommit then (Inl database_error, w4)
                                       else (Inr (ord, orderItems, shippingAddress), w4)))))))"

text \<open>\<^verbatim>\<open>rollbackTransaction\<close>: the tables the transaction wrote are as they were when it
  started; everything else stays as it is now.\<close>

definition rollbackTransaction :: "db \<Rightarrow> db \<Rightarrow> db" where
  "rollbackTransaction w0 w =
     w\<lparr>products := products w0, orders := orders w0, order_items := order_items w0,
       shipping_addresses := shipping_addresses w0\<rparr>"

text \<open>The confirmation is sent after the commit and never awaited; the final
  \<^verbatim>\<open>findOne\<close> is returned without \<^verbatim>\<open>await\<close>, so its failure does not reach the \<^verbatim>\<open>catch\<close>.\<close>

definition createOrder ::
  "env \<Rightarrow> fault option \<Rightarrow> Clock \<Rightarrow> Fresh \<Rightarrow> string \<Rightarrow> CreateOrderDto \<Rightarrow> string \<Rightarrow> string \<Rightarrow> db \<Rightarrow>
     (exception + LoadedOrder) \<times> db" where
  "createOrder e flt clk fresh userId dto userEmail userName w =
     (if flt = Some FailGetCart then (Inl database_error, w)
      else
        (case getCart fresh (Some userId) None w of
           (cart, w0) \<Rightarrow>
             if cr_items cart = [] then
               (Inl (BadRequestException ''Cart is empty. Add items before checking out.''), w0)
             else if flt = Some FailStartTransaction then (Inl database_error, w0)
             else
               (case createOrder_try flt clk fresh userId dto userEmail cart w0 of
                  (Inl ex, w1) \<Rightarrow> (Inl ex, rollbackTransaction w0 w1)
                | (Inr (savedOrder, orderItems, shippingAddress), w1) \<Rightarrow>
                    (let email = (case or_else (sa_email shippingAddress) (Some userEmail) of
                                    None \<Rightarrow> userEmail | Some a \<Rightarrow> a);
                         w2 = sendOrderConfirmationEmail e email
                                (d_first_name (dto_shipping_address dto)) savedOrder orderItems w1
                     in if flt = Some FailFindOne then (Inl database_error, w2)
                        else (case findOne (o_id savedOrder) (Some userId) w2 of
                                Inl ex \<Rightarrow> (Inl ex, w2)
                              | Inr lo \<Rightarrow> (Inr lo, w2))))))"

text \<open>\<^verbatim>\<open>cancelOrder\<close>: the stock is restored line by line, then the order is saved as
  cancelled. Nothing here is in a transaction.\<close>

definition cancelOrder :: "string \<Rightarrow> string \<Rightarrow> db \<Rightarrow> (exception + Order) \<times> db" where
  "cancelOrder oid userId w =
     (case findOne oid (Some userId) w of
        Inl ex \<Rightarrow> (Inl ex, w)
      | Inr lo \<Rightarrow>
          if o_status (lo_order lo) \<noteq> PENDING
          then (Inl (BadRequestException ''Only pending orders can be cancelled''), w)
          else
            (let w1 = foldl (\<lambda>w' item. w'\<lparr>products := adjust_stock (oi_product_id item) (oi_quantity item) (products w')\<rparr>)
                        w (lo_items lo);
                 saved = (lo_order lo)\<lparr>o_status := CANCELLED\<rparr>
             in (Inr saved,
                 w1\<lparr>orders := map (\<lambda>r. if o_id r = o_id saved then saved else r) (orders w1)\<rparr>)))"

subsection \<open>Constraints of the schema\<close>

text \<open>
  From \<^verbatim>\<open>schema.sql\<close>: a cart item's price is a \<^verbatim>\<open>DECIMAL(10, 2)\<close> (a whole number of
  hundredths), a cart holds a product at most once (\<^verbatim>\<open>unique_cart_product\<close>), and an order
  item's \<^verbatim>\<open>order_id\<close> references a stored order.
\<close>

definition decimal_2 :: "rat \<Rightarrow> bool" where
  "decimal_2 x = (of_int \<lfloor>x * 100\<rfloor> = x * 100)"

definition schema_constraints :: "db \<Rightarrow> bool" where
  "schema_constraints w =
     (list_all (\<lambda>i. decimal_2 (ci_price i)) (cart_items w) \<and>
      distinct (map (\<lambda>i. (ci_cart_id i, ci_product_id i)) (cart_items w)) \<and>
      list_all (\<lambda>i. list_ex (\<lambda>r. o_id r = oi_order_id i) (orders w)) (order_items w))"

subsection \<open>Sample data\<close>

text \<open>A small shop, a stand-in keyed digest and stand-in providers, on which the theorems
  below are instantiated.\<close>

definition sample_mac :: "string \<Rightarrow> string \<Rightarrow> string" where
  "sample_mac key data = key @ ''|'' @ data"

definition sample_accept :: "Mail \<Rightarrow> bool" where
  "sample_accept m = True"

definition sample_intent :: "int \<Rightarrow> string \<Rightarrow> string \<Rightarrow> string \<Rightarrow> string + PaymentIntent" where
  "sample_intent amount currency order_id order_number =
     Inr \<lparr> pi_id = ''pi_1'', pi_client_secret = Some ''cs_1'' \<rparr>"

definition sample_event :: "string \<Rightarrow> string \<Rightarrow> string \<Rightarrow> string + StripeEvent" where
  "sample_event payload signature secret =
     Inr \<lparr> ev_type = ''payment_intent.succeeded'',
            ev_object = \<lparr> pd_id = ''pi_1'', pd_metadata_order_id = Some payload \<rparr> \<rparr>"

definition sample_first :: "Order list \<Rightarrow> Order option" where
  "sample_first rows = (case rows of [] \<Rightarrow> None | r # _ \<Rightarrow> Some r)"

definition sample_env :: env where
  "sample_env =
     \<lparr> hmac_sha512 = sample_mac,
       vnpay_config = \<lparr> tmnCode = ''TMN'', hashSecret = ''s3cret'',
                        url = ''https://pay.example/vpcpay.html'',
                        returnUrl = ''https://shop.example/return'' \<rparr>,
       resend_send = sample_accept,
       stripe_paymentIntents_create = sample_intent,
       stripe_constructEvent = sample_event,
       stripe_webhook_secret = Some ''whsec'',
       findOne_undefined = sample_first \<rparr>"

definition sample_user :: User where
  "sample_user = \<lparr> u_id = ''u1'', u_email = ''ann@example.com'', u_first_name = ''Ann'' \<rparr>"

definition sample_order :: Order where
  "sample_order =
     \<lparr> o_id = ''o1'', o_user_id = ''u1'', o_order_number = ''ORD-20250101-0001'',
       o_status = PENDING, o_payment_status = PAYMENT_PENDING, o_payment_method = Some ''cod'',
       o_subtotal = 20, o_shipping_fee = 0, o_tax = 0, o_discount = 0, o_total = 20,
       o_currency = ''USD'', o_notes = None, o_created_at = 1000 \<rparr>"

definition sample_db :: db where
  "sample_db =
     \<lparr> users = [sample_user],
       products = [\<lparr> p_id = ''A'', p_name = ''Apple'', p_price = 10, p_stock_quantity = 5 \<rparr>],
       carts = [\<lparr> c_id = ''c1'', c_user_id = Some ''u1'', c_session_id = None \<rparr>],
       cart_items = [\<lparr> ci_cart_id = ''c1'', ci_product_id = ''A'', ci_quantity = 2, ci_price = 10 \<rparr>],
       orders = [sample_order],
       order_items = [\<lparr> oi_order_id = ''o1'', oi_product_id = ''A'', oi_product_name = Some ''Apple'',
                        oi_product_sku = None, oi_quantity = 2, oi_price = 10, oi_subtotal = 20 \<rparr>],
       shipping_addresses = [],
       outbox = [],
       console = [] \<rparr>"

definition sample_params :: "string js_object" where
  "sample_params =
     [(''vnp_TxnRef'', ''ORD-20250101-0001''),
      (''vnp_ResponseCode'', ''00''),
      (''vnp_Amount'', ''2000''),
      (''vnp_BankTranNo'', []),
      (''vnp_TransactionNo'', ''T 1''),
      (''vnp_SecureHash'',
       ''s3cret|vnp_Amount=2000&vnp_ResponseCode=00&vnp_TransactionNo=T+1&vnp_TxnRef=ORD-20250101-0001'')]"

definition sample_clock :: Clock where
  "sample_clock = \<lparr> now_iso = ''2025-01-01T10:00:00.000Z'', today_start = 0, now_ms = 2000 \<rparr>"


definition sample_fresh :: Fresh where
  "sample_fresh = \<lparr> new_order_id = ''o2'', new_cart_id = ''c2'' \<rparr>"

definition sample_dto :: CreateOrderDto where
  "sample_dto =
     \<lparr> dto_shipping_address =
         \<lparr> d_first_name = ''Ann'', d_last_name = ''Lee'', d_email = None, d_phone = None,
           d_address_line1 = ''1 Main St'', d_address_line2 = None, d_city = ''Hanoi'',
           d_state = None, d_postal_code = None, d_country = ''VN'' \<rparr>,
       dto_payment_method = Some ''vnpay'',
       dto_notes = None \<rparr>"

text \<open>The same shop with one apple left.\<close>

definition sample_db_low :: db where
  "sample_db_low =
     sample_db\<lparr>products := [\<lparr> p_id = ''A'', p_name = ''Apple'', p_price = 10, p_stock_quantity = 1 \<rparr>]\<rparr>"


section \<open>Properties\<close>

subsection \<open>Objects, the signed string and its serialisation\<close>





















































subsection \<open>Settlement\<close>

lemma find_map_preserve:
  "(\<And>x. P (f x) = P x) \<Longrightarrow> find P (map f xs) = map_option f (find P xs)"
  by (induction xs) auto

lemma orders_markOrderPaid:
  "orders (markOrderPaid e lo txn w) =
     map (\<lambda>r. if o_id r = o_id (lo_order lo) then r\<lparr>o_payment_status := PAID, o_status := PROCESSING\<rparr> else r) (orders w)"
  by (simp add: markOrderPaid_def update_order_def sendOrderConfirmationEmail_def Let_def split: option.splits)

lemma outbox_markOrderPaid:
  "outbox (markOrderPaid e lo txn w) =
     outbox w @ (case lo_user lo of None \<Rightarrow> []
                 | Some u \<Rightarrow> if u_email u \<noteq> [] then [\<lparr> mail_to = u_email u, mail_subject = ''Order Confirmed - '' @ o_order_number (lo_order lo) \<rparr>] else [])"
  by (simp add: markOrderPaid_def update_order_def sendOrderConfirmationEmail_def Let_def split: option.splits)

lemma rest_markOrderPaid:
  "products (markOrderPaid e lo txn w) = products w \<and>
   users (markOrderPaid e lo txn w) = users w \<and>
   order_items (markOrderPaid e lo txn w) = order_items w \<and>
   shipping_addresses (markOrderPaid e lo txn w) = shipping_addresses w \<and>
   carts (markOrderPaid e lo txn w) = carts w \<and>
   cart_items (markOrderPaid e lo txn w) = cart_items w"
  by (simp add: markOrderPaid_def update_order_def sendOrderConfirmationEmail_def Let_def split: option.splits)

text \<open>
  Claim C4, as the code has it: \<^verbatim>\<open>markOrderPaid\<close> sets \<open>payment_status = paid\<close> and
  \<open>status = processing\<close> on the order's row whatever its status was; it hands one
  confirmation mail to the provider when the order's user has an e-mail address, and the
  provider's answer changes nothing in the orders; \<^verbatim>\<open>markOrderPaymentFailed\<close> sets
  \<open>payment_status = failed\<close> and leaves the status alone.
\<close>

theorem markOrderPaid_unconditional:
  "orders (markOrderPaid e lo txn w) =
     map (\<lambda>r. if o_id r = o_id (lo_order lo)
               then r\<lparr>o_payment_status := PAID, o_status := PROCESSING\<rparr> else r) (orders w) \<and>
   outbox (markOrderPaid e lo txn w) =
     outbox w @ (case lo_user lo of None \<Rightarrow> []
                 | Some u \<Rightarrow> if u_email u \<noteq> [] then [\<lparr> mail_to = u_email u, mail_subject = ''Order Confirmed - '' @ o_order_number (lo_order lo) \<rparr>] else []) \<and>
   orders (markOrderPaid (e\<lparr>resend_send := mailer\<rparr>) lo txn w) = orders (markOrderPaid e lo txn w) \<and>
   orders (markOrderPaymentFailed lo w) =
     map (\<lambda>r. if o_id r = o_id (lo_order lo) then r\<lparr>o_payment_status := FAILED\<rparr> else r) (orders w)"
  by (simp add: orders_markOrderPaid outbox_markOrderPaid markOrderPaymentFailed_def update_order_def Let_def)

lemma sample_valid: "v_isValid (validateReturn (hmac_sha512 sample_env) (vnpay_config sample_env) sample_params)"
  by code_simp

text \<open>
  Claim C4 as stated fails: the status is not left alone when it is no longer pending. A
  shipped order goes back to processing.
\<close>

theorem markOrderPaid_overwrites_shipped:
  "map o_status (orders (sample_db\<lparr>orders := [sample_order\<lparr>o_status := SHIPPED\<rparr>]\<rparr>)) = [SHIPPED] \<and>
   map o_status (orders (markOrderPaid sample_env
       (load_relations sample_db (sample_order\<lparr>o_status := SHIPPED\<rparr>)) ''T1''
       (sample_db\<lparr>orders := [sample_order\<lparr>o_status := SHIPPED\<rparr>]\<rparr>))) = [PROCESSING]"
  by (simp add: orders_markOrderPaid load_relations_def sample_db_def sample_order_def)

text \<open>
  Claim C3 as stated fails: processing the same verified success notification a second time
  hands a second confirmation mail to the provider.
\<close>

theorem replay_sends_second_mail:
  "length (outbox sample_db) = 0 \<and>
   length (outbox (snd (handleVNPayReturn sample_env sample_params sample_db))) = 1 \<and>
   length (outbox (snd (handleVNPayReturn sample_env sample_params
                          (snd (handleVNPayReturn sample_env sample_params sample_db))))) = 2 \<and>
   map o_payment_status (orders (snd (handleVNPayReturn sample_env sample_params
                          (snd (handleVNPayReturn sample_env sample_params sample_db))))) = [PAID]"
  by code_simp

lemma handleVNPayReturn_success:
  assumes valid: "v_isValid (validateReturn (hmac_sha512 e) (vnpay_config e) params)"
      and ref: "map_of params ''vnp_TxnRef'' = Some ref"
      and code: "map_of params ''vnp_ResponseCode'' = Some ''00''"
      and found: "find (\<lambda>r. o_order_number r = ref) (orders w) = Some ord"
  shows "handleVNPayReturn e params w =
           (Inr \<lparr> vr_success = True, vr_message = ''Transaction successful'',
                  vr_orderId = o_id ord, vr_orderNumber = o_order_number ord \<rparr>,
            markOrderPaid e (load_relations w ord)
              (template_string (map_of params ''vnp_TransactionNo'')) w)"
proof -
  have r: "v_orderId (validateReturn (hmac_sha512 e) (vnpay_config e) params) = Some ref"
          "v_responseCode (validateReturn (hmac_sha512 e) (vnpay_config e) params) = Some ''00''"
          "v_transactionNo (validateReturn (hmac_sha512 e) (vnpay_config e) params) = map_of params ''vnp_TransactionNo''"
    using ref code by (simp_all add: validateReturn_def Let_def)
  have m: "getResponseMessage (Some ''00'') = ''Transaction successful''"
    by (simp add: getResponseMessage_def response_messages_def)
  show ?thesis
    using valid found by (simp add: handleVNPayReturn_def Let_def r m isPaymentSuccessful_def)
qed

text \<open>
  Claim C3, as the code has it: for a verified success notification whose reference names
  a stored order, processing it twice gives the same answer twice, leaves the order paid
  (and processing) after each run, changes no orders on the second run and no product at
  all, and hands the provider the confirmation mail once per run when the order's user has
  an e-mail address: there is no check of the payment status before the transition.
\<close>

theorem settlement_replay:
  assumes valid: "v_isValid (validateReturn (hmac_sha512 e) (vnpay_config e) params)"
      and ref: "map_of params ''vnp_TxnRef'' = Some ref"
      and code: "map_of params ''vnp_ResponseCode'' = Some ''00''"
      and found: "find (\<lambda>r. o_order_number r = ref) (orders w) = Some ord"
      and first: "handleVNPayReturn e params w = (r1, w1)"
      and second: "handleVNPayReturn e params w1 = (r2, w2)"
  shows "r1 = r2 \<and> (\<exists>res. r1 = Inr res \<and> vr_success res) \<and>
         find (\<lambda>r. o_order_number r = ref) (orders w1) =
           Some (ord\<lparr>o_payment_status := PAID, o_status := PROCESSING\<rparr>) \<and>
         orders w2 = orders w1 \<and>
         products w1 = products w \<and> products w2 = products w \<and>
         outbox w1 = outbox w @
           (case find (\<lambda>u. u_id u = o_user_id ord) (users w) of
              None \<Rightarrow> []
            | Some u \<Rightarrow> if u_email u \<noteq> []
                then [\<lparr> mail_to = u_email u, mail_subject = ''Order Confirmed - '' @ o_order_number ord \<rparr>]
                else []) \<and>
         outbox w2 = outbox w1 @
           (case find (\<lambda>u. u_id u = o_user_id ord) (users w) of
              None \<Rightarrow> []
            | Some u \<Rightarrow> if u_email u \<noteq> []
                then [\<lparr> mail_to = u_email u, mail_subject = ''Order Confirmed - '' @ o_order_number ord \<rparr>]
                else [])"
proof -
  let ?g = "\<lambda>r. if o_id r = o_id ord then r\<lparr>o_payment_status := PAID, o_status := PROCESSING\<rparr> else r"
  let ?txn = "template_string (map_of params ''vnp_TransactionNo'')"
  let ?ord' = "ord\<lparr>o_payment_status := PAID, o_status := PROCESSING\<rparr>"
  have w1: "w1 = markOrderPaid e (load_relations w ord) ?txn w"
    and r1: "r1 = Inr \<lparr> vr_success = True, vr_message = ''Transaction successful'',
                  vr_orderId = o_id ord, vr_orderNumber = o_order_number ord \<rparr>"
    using handleVNPayReturn_success [OF valid ref code found] first by simp_all
  have o1: "orders w1 = map ?g (orders w)"
    by (simp add: w1 orders_markOrderPaid load_relations_def)
  have "find (\<lambda>r. o_order_number r = ref) (map ?g (orders w)) =
          map_option ?g (find (\<lambda>r. o_order_number r = ref) (orders w))"
    by (rule find_map_preserve) simp
  then have found1: "find (\<lambda>r. o_order_number r = ref) (orders w1) = Some ?ord'"
    using found o1 by simp
  have w2: "w2 = markOrderPaid e (load_relations w1 ?ord') ?txn w1"
    and r2: "r2 = Inr \<lparr> vr_success = True, vr_message = ''Transaction successful'',
                  vr_orderId = o_id ?ord', vr_orderNumber = o_order_number ?ord' \<rparr>"
    using handleVNPayReturn_success [OF valid ref code found1] second by simp_all
  have o2: "orders w2 = map ?g (orders w1)"
    by (simp add: w2 orders_markOrderPaid load_relations_def)
  have idem: "map ?g (map ?g (orders w)) = map ?g (orders w)"
    by simp
  have u1: "users w1 = users w"
    by (simp add: w1 rest_markOrderPaid)
  have out1: "outbox w1 = outbox w @
           (case find (\<lambda>u. u_id u = o_user_id ord) (users w) of
              None \<Rightarrow> []
            | Some u \<Rightarrow> if u_email u \<noteq> []
                then [\<lparr> mail_to = u_email u, mail_subject = ''Order Confirmed - '' @ o_order_number ord \<rparr>]
                else [])"
    by (simp add: w1 outbox_markOrderPaid load_relations_def split: option.splits)
  have out2: "outbox w2 = outbox w1 @
           (case find (\<lambda>u. u_id u = o_user_id ord) (users w) of
              None \<Rightarrow> []
            | Some u \<Rightarrow> if u_email u \<noteq> []
                then [\<lparr> mail_to = u_email u, mail_subject = ''Order Confirmed - '' @ o_order_number ord \<rparr>]
                else [])"
    by (simp add: w2 outbox_markOrderPaid load_relations_def u1 split: option.splits)
  have p1: "products w1 = products w" by (simp add: w1 rest_markOrderPaid)
  have p2: "products w2 = products w" by (simp add: w2 rest_markOrderPaid p1)
  show ?thesis
    using r1 r2 found1 o1 o2 idem p1 p2 out1 out2 by simp
qed

theorem settlement_replay_witness:
  "v_isValid (validateReturn (hmac_sha512 sample_env) (vnpay_config sample_env) sample_params) \<and>
   map_of sample_params ''vnp_TxnRef'' = Some ''ORD-20250101-0001'' \<and>
   map_of sample_params ''vnp_ResponseCode'' = Some ''00'' \<and>
   find (\<lambda>r. o_order_number r = ''ORD-20250101-0001'') (orders sample_db) = Some sample_order \<and>
   find (\<lambda>r. o_order_number r = ''ORD-20250101-0001'')
     (orders (snd (handleVNPayReturn sample_env sample_params sample_db))) =
     Some (sample_order\<lparr>o_payment_status := PAID, o_status := PROCESSING\<rparr>) \<and>
   orders (snd (handleVNPayReturn sample_env sample_params
                  (snd (handleVNPayReturn sample_env sample_params sample_db)))) =
     orders (snd (handleVNPayReturn sample_env sample_params sample_db)) \<and>
   products (snd (handleVNPayReturn sample_env sample_params
                  (snd (handleVNPayReturn sample_env sample_params sample_db)))) = products sample_db"
proof -
  have valid: "v_isValid (validateReturn (hmac_sha512 sample_env) (vnpay_config sample_env) sample_params)"
    by code_simp
  have ref: "map_of sample_params ''vnp_TxnRef'' = Some ''ORD-20250101-0001''"
    by (simp add: sample_params_def)
  have code: "map_of sample_params ''vnp_ResponseCode'' = Some ''00''"
    by (simp add: sample_params_def)
  have found: "find (\<lambda>r. o_order_number r = ''ORD-20250101-0001'') (orders sample_db) = Some sample_order"
    by (simp add: sample_db_def sample_order_def)
  show ?thesis
    using valid ref code found
      settlement_replay [OF valid ref code found surjective_pairing surjective_pairing]
    by simp
qed


text \<open>
  Claim C7: for an order of the caller that is already paid or refunded, both
  \<^verbatim>\<open>createStripePaymentIntent\<close> and \<^verbatim>\<open>createVNPayPaymentUrl\<close> fail with a
  \<^verbatim>\<open>BadRequestException\<close> and leave the database as it was; in any other payment state the
  VNPay entry point succeeds and records \<^verbatim>\<open>vnpay\<close> on the order, and the Stripe entry point
  records \<^verbatim>\<open>stripe\<close> once the gateway has created the intent.
\<close>

theorem payment_creation_guard:
  assumes found: "find (\<lambda>r. o_id r = orderId \<and> o_user_id r = userId) (orders w) = Some ord"
  shows "(o_payment_status ord = PAID \<or> o_payment_status ord = REFUNDED \<longrightarrow>
            (\<exists>msg. createStripePaymentIntent e orderId userId w = (Inl (BadRequestException msg), w)) \<and>
            (\<exists>msg. createVNPayPaymentUrl e createDate expireDate orderId userId ipAddr w =
                     (Inl (BadRequestException msg), w))) \<and>
         (o_payment_status ord \<noteq> PAID \<and> o_payment_status ord \<noteq> REFUNDED \<longrightarrow>
            (\<exists>res. createVNPayPaymentUrl e createDate expireDate orderId userId ipAddr w =
                     (Inr res, update_order (o_id ord) (\<lambda>r. r\<lparr>o_payment_method := Some ''vnpay''\<rparr>) w)) \<and>
            (\<forall>intent.
               stripe_paymentIntents_create e (Math_round (o_total ord * 100))
                 (map toLowerCase_char (o_currency ord)) (o_id ord) (o_order_number ord) = Inr intent \<longrightarrow>
               (\<exists>res. createStripePaymentIntent e orderId userId w =
                     (Inr res, update_order (o_id ord) (\<lambda>r. r\<lparr>o_payment_method := Some ''stripe''\<rparr>) w)))) \<and>
         find (\<lambda>r. o_id r = orderId \<and> o_user_id r = userId)
           (orders (update_order (o_id ord) (\<lambda>r. r\<lparr>o_payment_method := chosen\<rparr>) w)) =
           Some (ord\<lparr>o_payment_method := chosen\<rparr>)"
proof -
  have "find (\<lambda>r. o_id r = orderId \<and> o_user_id r = userId)
          (map (\<lambda>r. if o_id r = o_id ord then r\<lparr>o_payment_method := chosen\<rparr> else r) (orders w)) =
        map_option (\<lambda>r. if o_id r = o_id ord then r\<lparr>o_payment_method := chosen\<rparr> else r)
          (find (\<lambda>r. o_id r = orderId \<and> o_user_id r = userId) (orders w))"
    by (rule find_map_preserve) simp
  then have recorded: "find (\<lambda>r. o_id r = orderId \<and> o_user_id r = userId)
           (orders (update_order (o_id ord) (\<lambda>r. r\<lparr>o_payment_method := chosen\<rparr>) w)) =
           Some (ord\<lparr>o_payment_method := chosen\<rparr>)"
    using found by (simp add: update_order_def)
  have rejected: "o_payment_status ord = PAID \<or> o_payment_status ord = REFUNDED \<Longrightarrow>
      \<exists>msg. findOrderForPayment orderId userId w = Inl (BadRequestException msg)"
    using found by (auto simp: findOrderForPayment_def)
  have accepted: "o_payment_status ord \<noteq> PAID \<and> o_payment_status ord \<noteq> REFUNDED \<Longrightarrow>
      findOrderForPayment orderId userId w = Inr (load_relations w ord)"
    using found by (simp add: findOrderForPayment_def)
  have lo: "lo_order (load_relations w ord) = ord"
    by (simp add: load_relations_def)
  show ?thesis
  proof (intro conjI impI allI)
    assume "o_payment_status ord = PAID \<or> o_payment_status ord = REFUNDED"
    then obtain msg where "findOrderForPayment orderId userId w = Inl (BadRequestException msg)"
      using rejected by blast
    then show "\<exists>msg. createStripePaymentIntent e orderId userId w = (Inl (BadRequestException msg), w)"
      and "\<exists>msg. createVNPayPaymentUrl e createDate expireDate orderId userId ipAddr w =
                     (Inl (BadRequestException msg), w)"
      by (simp_all add: createStripePaymentIntent_def createVNPayPaymentUrl_def)
  next
    assume "o_payment_status ord \<noteq> PAID \<and> o_payment_status ord \<noteq> REFUNDED"
    then show "\<exists>res. createVNPayPaymentUrl e createDate expireDate orderId userId ipAddr w =
                     (Inr res, update_order (o_id ord) (\<lambda>r. r\<lparr>o_payment_method := Some ''vnpay''\<rparr>) w)"
      using accepted by (simp add: createVNPayPaymentUrl_def lo)
  next
    fix intent
    assume "o_payment_status ord \<noteq> PAID \<and> o_payment_status ord \<noteq> REFUNDED"
      and "stripe_paymentIntents_create e (Math_round (o_total ord * 100))
                 (map toLowerCase_char (o_currency ord)) (o_id ord) (o_order_number ord) = Inr intent"
    then show "\<exists>res. createStripePaymentIntent e orderId userId w =
                     (Inr res, update_order (o_id ord) (\<lambda>r. r\<lparr>o_payment_method := Some ''stripe''\<rparr>) w)"
      using accepted by (simp add: createStripePaymentIntent_def createPaymentIntent_def lo)
  next
    show "find (\<lambda>r. o_id r = orderId \<and> o_user_id r = userId)
           (orders (update_order (o_id ord) (\<lambda>r. r\<lparr>o_payment_method := chosen\<rparr>) w)) =
           Some (ord\<lparr>o_payment_method := chosen\<rparr>)"
      by (rule recorded)
  qed
qed

theorem payment_creation_guard_witness:
  "find (\<lambda>r. o_id r = ''o1'' \<and> o_user_id r = ''u1'') (orders sample_db) = Some sample_order \<and>
   o_payment_status sample_order = PAYMENT_PENDING \<and>
   fst (createVNPayPaymentUrl sample_env ''20250101100000'' ''20250101101500'' ''o1'' ''u1'' ''127.0.0.1'' sample_db)
     \<noteq> Inl (BadRequestException ''Order already paid'') \<and>
   map o_payment_method (orders (snd (createVNPayPaymentUrl sample_env ''20250101100000'' ''20250101101500''
      ''o1'' ''u1'' ''127.0.0.1'' sample_db))) = [Some ''vnpay''] \<and>
   map o_payment_method (orders (snd (createStripePaymentIntent sample_env ''o1'' ''u1'' sample_db))) = [Some ''stripe''] \<and>
   find (\<lambda>r. o_id r = ''o1'' \<and> o_user_id r = ''u1'')
     (orders (sample_db\<lparr>orders := [sample_order\<lparr>o_payment_status := PAID\<rparr>]\<rparr>)) =
     Some (sample_order\<lparr>o_payment_status := PAID\<rparr>) \<and>
   createStripePaymentIntent sample_env ''o1'' ''u1''
     (sample_db\<lparr>orders := [sample_order\<lparr>o_payment_status := PAID\<rparr>]\<rparr>) =
     (Inl (BadRequestException ''Order already paid''),
      sample_db\<lparr>orders := [sample_order\<lparr>o_payment_status := PAID\<rparr>]\<rparr>) \<and>
   createVNPayPaymentUrl sample_env ''20250101100000'' ''20250101101500'' ''o1'' ''u1'' ''127.0.0.1''
     (sample_db\<lparr>orders := [sample_order\<lparr>o_payment_status := PAID\<rparr>]\<rparr>) =
     (Inl (BadRequestException ''Order already paid''),
      sample_db\<lparr>orders := [sample_order\<lparr>o_payment_status := PAID\<rparr>]\<rparr>)"
proof -
  have f1: "find (\<lambda>r. o_id r = ''o1'' \<and> o_user_id r = ''u1'') (orders sample_db) = Some sample_order"
    by (simp add: sample_db_def sample_order_def)
  have f2: "find (\<lambda>r. o_id r = ''o1'' \<and> o_user_id r = ''u1'')
     (orders (sample_db\<lparr>orders := [sample_order\<lparr>o_payment_status := PAID\<rparr>]\<rparr>)) =
     Some (sample_order\<lparr>o_payment_status := PAID\<rparr>)"
    by (simp add: sample_db_def sample_order_def)
  have s: "o_payment_status sample_order = PAYMENT_PENDING"
    by (simp add: sample_order_def)
  have i: "stripe_paymentIntents_create sample_env (Math_round (o_total sample_order * 100))
                 (map toLowerCase_char (o_currency sample_order)) (o_id sample_order)
                 (o_order_number sample_order) = Inr \<lparr> pi_id = ''pi_1'', pi_client_secret = Some ''cs_1'' \<rparr>"
    by (simp add: sample_env_def sample_intent_def)
  have oid: "o_id sample_order = ''o1''"
    by (simp add: sample_order_def)
  have upd: "map o_payment_method (orders (update_order ''o1'' (\<lambda>r. r\<lparr>o_payment_method := m\<rparr>) sample_db)) = [m]" for m
    by (simp add: update_order_def sample_db_def sample_order_def)
  note a = payment_creation_guard [OF f1, where e = sample_env and createDate = "''20250101100000''"
      and expireDate = "''20250101101500''" and ipAddr = "''127.0.0.1''" and chosen = None]
  note b = payment_creation_guard [OF f2, where e = sample_env and createDate = "''20250101100000''"
      and expireDate = "''20250101101500''" and ipAddr = "''127.0.0.1''" and chosen = None]
  have b': "createStripePaymentIntent sample_env ''o1'' ''u1''
     (sample_db\<lparr>orders := [sample_order\<lparr>o_payment_status := PAID\<rparr>]\<rparr>) =
     (Inl (BadRequestException ''Order already paid''),
      sample_db\<lparr>orders := [sample_order\<lparr>o_payment_status := PAID\<rparr>]\<rparr>)"
    "createVNPayPaymentUrl sample_env ''20250101100000'' ''20250101101500'' ''o1'' ''u1'' ''127.0.0.1''
     (sample_db\<lparr>orders := [sample_order\<lparr>o_payment_status := PAID\<rparr>]\<rparr>) =
     (Inl (BadRequestException ''Order already paid''),
      sample_db\<lparr>orders := [sample_order\<lparr>o_payment_status := PAID\<rparr>]\<rparr>)"
    using b by (simp_all add: createStripePaymentIntent_def createVNPayPaymentUrl_def findOrderForPayment_def
        sample_db_def sample_order_def)
  have ns: "o_payment_status sample_order \<noteq> PAID \<and> o_payment_status sample_order \<noteq> REFUNDED"
    using s by simp
  from a ns i obtain r1 r2 where
      v: "createVNPayPaymentUrl sample_env ''20250101100000'' ''20250101101500'' ''o1'' ''u1'' ''127.0.0.1'' sample_db =
           (Inr r1, update_order ''o1'' (\<lambda>r. r\<lparr>o_payment_method := Some ''vnpay''\<rparr>) sample_db)"
      and t: "createStripePaymentIntent sample_env ''o1'' ''u1'' sample_db =
           (Inr r2, update_order ''o1'' (\<lambda>r. r\<lparr>o_payment_method := Some ''stripe''\<rparr>) sample_db)"
    unfolding oid by blast
  show ?thesis
    using f1 f2 s b' by (simp add: v t upd)
qed

text \<open>
  Claim C10: a parameter set whose signature verifies and whose \<^verbatim>\<open>vnp_TxnRef\<close> names no
  stored order makes \<^verbatim>\<open>handleVNPayReturn\<close> throw \<^verbatim>\<open>NotFoundException\<close>, which the IPN
  handler passes on; on the Stripe path an order id that resolves to nothing is logged and
  the webhook handler answers normally.
\<close>

theorem unknown_order_reference:
  assumes valid: "v_isValid (validateReturn (hmac_sha512 e) (vnpay_config e) params)"
      and ref: "map_of params ''vnp_TxnRef'' = Some ref"
      and none: "find (\<lambda>r. o_order_number r = ref) (orders w) = None"
      and oid: "pd_metadata_order_id pd = Some oid" "oid \<noteq> []"
      and none': "find (\<lambda>r. o_id r = oid) (orders w) = None"
      and ev: "constructWebhookEvent e payload signature =
                 Inr \<lparr> ev_type = ''payment_intent.succeeded'', ev_object = pd \<rparr>"
  shows "handleVNPayReturn e params w = (Inl (NotFoundException ''Order not found''), w) \<and>
         handleVNPayIPN e params w = (Inl (NotFoundException ''Order not found''), w) \<and>
         handlePaymentSuccess e pd ''stripe'' w = w\<lparr>console := console w @ [''Order not found: '' @ oid]\<rparr> \<and>
         handleStripeWebhook e payload signature w =
           (Inr True, w\<lparr>console := console w @ [''Order not found: '' @ oid]\<rparr>)"
proof -
  have r: "v_orderId (validateReturn (hmac_sha512 e) (vnpay_config e) params) = Some ref"
    using ref by (simp add: validateReturn_def Let_def)
  have a: "handleVNPayReturn e params w = (Inl (NotFoundException ''Order not found''), w)"
    using valid none by (simp add: handleVNPayReturn_def Let_def r)
  have b: "handlePaymentSuccess e pd ''stripe'' w = w\<lparr>console := console w @ [''Order not found: '' @ oid]\<rparr>"
    using oid none' by (simp add: handlePaymentSuccess_def)
  show ?thesis
    using a b ev by (simp add: handleVNPayIPN_def handleStripeWebhook_def)
qed

theorem unknown_order_reference_witness:
  "v_isValid (validateReturn (hmac_sha512 sample_env) (vnpay_config sample_env) sample_params) \<and>
   map_of sample_params ''vnp_TxnRef'' = Some ''ORD-20250101-0001'' \<and>
   find (\<lambda>r. o_order_number r = ''ORD-20250101-0001'') (orders (sample_db\<lparr>orders := []\<rparr>)) = None \<and>
   handleVNPayReturn sample_env sample_params (sample_db\<lparr>orders := []\<rparr>) =
     (Inl (NotFoundException ''Order not found''), sample_db\<lparr>orders := []\<rparr>) \<and>
   handleVNPayIPN sample_env sample_params (sample_db\<lparr>orders := []\<rparr>) =
     (Inl (NotFoundException ''Order not found''), sample_db\<lparr>orders := []\<rparr>) \<and>
   handleStripeWebhook sample_env ''o9'' ''sig'' (sample_db\<lparr>orders := []\<rparr>) =
     (Inr True, sample_db\<lparr>orders := [], console := [''Order not found: o9'']\<rparr>)"
proof -
  have valid: "v_isValid (validateReturn (hmac_sha512 sample_env) (vnpay_config sample_env) sample_params)"
    by code_simp
  have ref: "map_of sample_params ''vnp_TxnRef'' = Some ''ORD-20250101-0001''"
    by (simp add: sample_params_def)
  have none: "find (\<lambda>r. o_order_number r = ''ORD-20250101-0001'') (orders (sample_db\<lparr>orders := []\<rparr>)) = None"
    by simp
  have oid: "pd_metadata_order_id \<lparr> pd_id = ''pi_1'', pd_metadata_order_id = Some ''o9'' \<rparr> = Some ''o9''"
       "''o9'' \<noteq> []"
    by simp_all
  have none': "find (\<lambda>r. o_id r = ''o9'') (orders (sample_db\<lparr>orders := []\<rparr>)) = None"
    by simp
  have ev: "constructWebhookEvent sample_env ''o9'' ''sig'' =
      Inr \<lparr> ev_type = ''payment_intent.succeeded'',
             ev_object = \<lparr> pd_id = ''pi_1'', pd_metadata_order_id = Some ''o9'' \<rparr> \<rparr>"
    by (simp add: constructWebhookEvent_def sample_env_def sample_event_def)
  show ?thesis
    using valid ref none unknown_order_reference [OF valid ref none oid none' ev]
    by (simp add: sample_db_def)
qed


subsection \<open>The VNPay signature\<close>





subsection \<open>Order numbers\<close>


















subsection \<open>Cancellation\<close>

lemma adjust_stock_id: "map p_id (adjust_stock pid d ps) = map p_id ps"
  by (simp add: adjust_stock_def)

lemma foldl_restore_products:
  "products (foldl (\<lambda>w' item. w'\<lparr>products := adjust_stock (oi_product_id item) (oi_quantity item) (products w')\<rparr>) w its) =
     map (\<lambda>p. p\<lparr>p_stock_quantity := p_stock_quantity p +
                  sum_list (map oi_quantity (filter (\<lambda>i. oi_product_id i = p_id p) its))\<rparr>) (products w)"
proof (induction its arbitrary: w)
  case Nil
  then show ?case by (simp add: map_idI)
next
  case (Cons item its)
  let ?F = "\<lambda>w' item. w'\<lparr>products := adjust_stock (oi_product_id item) (oi_quantity item) (products w')\<rparr>"
  have "products (foldl ?F (w\<lparr>products := adjust_stock (oi_product_id item) (oi_quantity item) (products w)\<rparr>) its) =
        map (\<lambda>p. p\<lparr>p_stock_quantity := p_stock_quantity p +
                  sum_list (map oi_quantity (filter (\<lambda>i. oi_product_id i = p_id p) its))\<rparr>)
          (adjust_stock (oi_product_id item) (oi_quantity item) (products w))"
    using Cons.IH [of "w\<lparr>products := adjust_stock (oi_product_id item) (oi_quantity item) (products w)\<rparr>"]
    by simp
  also have "\<dots> = map (\<lambda>p. p\<lparr>p_stock_quantity := p_stock_quantity p +
                  sum_list (map oi_quantity (filter (\<lambda>i. oi_product_id i = p_id p) (item # its)))\<rparr>)
          (products w)"
    by (auto simp: adjust_stock_def)
  finally show ?case by simp
qed

lemma foldl_restore_rest:
  "orders (foldl (\<lambda>w' item. w'\<lparr>products := adjust_stock (oi_product_id item) (oi_quantity item) (products w')\<rparr>) w its) = orders w \<and>
   order_items (foldl (\<lambda>w' item. w'\<lparr>products := adjust_stock (oi_product_id item) (oi_quantity item) (products w')\<rparr>) w its) = order_items w"
  by (induction its arbitrary: w) simp_all

lemma find_some_holds: "find P xs = Some x \<Longrightarrow> P x \<and> x \<in> set xs"
  by (induction xs) (auto split: if_splits)

lemma find_update_by_key:
  assumes "distinct (map key rows)" and "find P rows = Some r" and "P r'"
  shows "find P (map (\<lambda>x. if key x = key r then r' else x) rows) = Some r'"
  using assms
proof (induction rows)
  case Nil
  then show ?case by simp
next
  case (Cons x xs)
  show ?case
  proof (cases "P x")
    case True
    with Cons.prems show ?thesis by simp
  next
    case False
    with Cons.prems have f: "find P xs = Some r" by simp
    then have "r \<in> set xs" by (simp add: find_some_holds)
    with Cons.prems have "key x \<noteq> key r" by auto
    with False Cons f show ?thesis by simp
  qed
qed

lemma findOne_Inr:
  "findOne oid userId w = Inr lo \<Longrightarrow>
     \<exists>r. find (\<lambda>r. o_id r = oid \<and> owner_condition userId r) (orders w) = Some r \<and>
         lo = load_relations w r \<and> o_id r = oid"
  by (auto simp: findOne_def split: option.splits dest: find_some_holds)

text \<open>
  Claim C6: \<^verbatim>\<open>cancelOrder\<close> on an order of the caller that is processing, shipped, delivered
  or cancelled fails with the \<^verbatim>\<open>BadRequestException\<close> for an illegal state and changes
  nothing; on a pending order it sets the status to cancelled and adds to every product's
  stock the quantities of the order's lines for that product, each line once. With unique
  order ids a second cancellation is rejected, so nothing is restored twice.
\<close>

theorem cancelOrder_legality:
  assumes found: "findOne oid (Some userId) w = Inr lo"
  shows "(o_status (lo_order lo) \<in> {PROCESSING, SHIPPED, DELIVERED, CANCELLED} \<longrightarrow>
            cancelOrder oid userId w =
              (Inl (BadRequestException ''Only pending orders can be cancelled''), w)) \<and>
         (o_status (lo_order lo) = PENDING \<longrightarrow>
            fst (cancelOrder oid userId w) = Inr ((lo_order lo)\<lparr>o_status := CANCELLED\<rparr>) \<and>
            orders (snd (cancelOrder oid userId w)) =
              map (\<lambda>r. if o_id r = oid then (lo_order lo)\<lparr>o_status := CANCELLED\<rparr> else r) (orders w) \<and>
            products (snd (cancelOrder oid userId w)) =
              map (\<lambda>p. p\<lparr>p_stock_quantity := p_stock_quantity p +
                     sum_list (map oi_quantity
                       (filter (\<lambda>i. oi_product_id i = p_id p)
                          (filter (\<lambda>i. oi_order_id i = oid) (order_items w))))\<rparr>)
                  (products w) \<and>
            order_items (snd (cancelOrder oid userId w)) = order_items w \<and>
            (distinct (map o_id (orders w)) \<longrightarrow>
               cancelOrder oid userId (snd (cancelOrder oid userId w)) =
                 (Inl (BadRequestException ''Only pending orders can be cancelled''),
                  snd (cancelOrder oid userId w))))"
proof -
  let ?P = "\<lambda>r. o_id r = oid \<and> owner_condition (Some userId) r"
  let ?F = "\<lambda>w' item. w'\<lparr>products := adjust_stock (oi_product_id item) (oi_quantity item) (products w')\<rparr>"
  from findOne_Inr [OF found] obtain r where
      r: "find ?P (orders w) = Some r" and lo: "lo = load_relations w r" and rid: "o_id r = oid"
    by blast
  have ord: "lo_order lo = r" and its: "lo_items lo = filter (\<lambda>i. oi_order_id i = oid) (order_items w)"
    by (simp_all add: lo load_relations_def rid)
  let ?saved = "r\<lparr>o_status := CANCELLED\<rparr>"
  let ?w1 = "foldl ?F w (lo_items lo)"
  let ?w2 = "?w1\<lparr>orders := map (\<lambda>x. if o_id x = o_id ?saved then ?saved else x) (orders ?w1)\<rparr>"
  have rejected: "o_status r \<noteq> PENDING \<Longrightarrow>
      cancelOrder oid userId w = (Inl (BadRequestException ''Only pending orders can be cancelled''), w)"
    using found by (simp add: cancelOrder_def ord)
  have accepted: "o_status r = PENDING \<Longrightarrow> cancelOrder oid userId w = (Inr ?saved, ?w2)"
    using found by (simp add: cancelOrder_def ord Let_def)
  have o2: "orders ?w2 = map (\<lambda>x. if o_id x = oid then ?saved else x) (orders w)"
    by (simp add: foldl_restore_rest rid)
  have p2: "products ?w2 =
              map (\<lambda>p. p\<lparr>p_stock_quantity := p_stock_quantity p +
                     sum_list (map oi_quantity
                       (filter (\<lambda>i. oi_product_id i = p_id p)
                          (filter (\<lambda>i. oi_order_id i = oid) (order_items w))))\<rparr>)
                  (products w)"
    by (simp add: foldl_restore_products its)
  have i2: "order_items ?w2 = order_items w"
    by (simp add: foldl_restore_rest)
  have again: "cancelOrder oid userId ?w2 =
                 (Inl (BadRequestException ''Only pending orders can be cancelled''), ?w2)"
    if d: "distinct (map o_id (orders w))"
  proof -
    have "?P ?saved" using find_some_holds [OF r] by (simp add: owner_condition_def)
    with d r have "find ?P (map (\<lambda>x. if o_id x = o_id r then ?saved else x) (orders w)) = Some ?saved"
      by (rule find_update_by_key)
    then have "find ?P (orders ?w2) = Some ?saved"
      unfolding o2 by (simp add: rid)
    then have "findOne oid (Some userId) ?w2 = Inr (load_relations ?w2 ?saved)"
      by (simp add: findOne_def)
    then show ?thesis
      by (simp add: cancelOrder_def load_relations_def)
  qed
  show ?thesis
  proof (intro conjI impI)
    assume "o_status (lo_order lo) \<in> {PROCESSING, SHIPPED, DELIVERED, CANCELLED}"
    then have "o_status r \<noteq> PENDING" by (auto simp: ord)
    then show "cancelOrder oid userId w =
              (Inl (BadRequestException ''Only pending orders can be cancelled''), w)"
      by (rule rejected)
  next
    assume "o_status (lo_order lo) = PENDING"
    then have c: "cancelOrder oid userId w = (Inr ?saved, ?w2)"
      using accepted by (simp add: ord)
    show "fst (cancelOrder oid userId w) = Inr ((lo_order lo)\<lparr>o_status := CANCELLED\<rparr>)"
      by (simp add: c ord)
    show "orders (snd (cancelOrder oid userId w)) =
              map (\<lambda>r. if o_id r = oid then (lo_order lo)\<lparr>o_status := CANCELLED\<rparr> else r) (orders w)"
      unfolding c snd_conv ord by (rule o2)
    show "products (snd (cancelOrder oid userId w)) =
              map (\<lambda>p. p\<lparr>p_stock_quantity := p_stock_quantity p +
                     sum_list (map oi_quantity
                       (filter (\<lambda>i. oi_product_id i = p_id p)
                          (filter (\<lambda>i. oi_order_id i = oid) (order_items w))))\<rparr>)
                  (products w)"
      unfolding c snd_conv by (rule p2)
    show "order_items (snd (cancelOrder oid userId w)) = order_items w"
      unfolding c snd_conv by (rule i2)
    show "cancelOrder oid userId (snd (cancelOrder oid userId w)) =
                 (Inl (BadRequestException ''Only pending orders can be cancelled''),
                  snd (cancelOrder oid userId w))"
      if "distinct (map o_id (orders w))"
      unfolding c snd_conv using that by (rule again)
  qed
qed

theorem cancelOrder_legality_witness:
  "findOne ''o1'' (Some ''u1'') sample_db = Inr (load_relations sample_db sample_order) \<and>
   o_status sample_order = PENDING \<and>
   distinct (map o_id (orders sample_db)) \<and>
   map o_status (orders (snd (cancelOrder ''o1'' ''u1'' sample_db))) = [CANCELLED] \<and>
   map p_stock_quantity (products sample_db) = [5] \<and>
   map p_stock_quantity (products (snd (cancelOrder ''o1'' ''u1'' sample_db))) = [7] \<and>
   cancelOrder ''o1'' ''u1'' (snd (cancelOrder ''o1'' ''u1'' sample_db)) =
     (Inl (BadRequestException ''Only pending orders can be cancelled''),
      snd (cancelOrder ''o1'' ''u1'' sample_db)) \<and>
   findOne ''o1'' (Some ''u1'') (sample_db\<lparr>orders := [sample_order\<lparr>o_status := SHIPPED\<rparr>]\<rparr>) =
     Inr (load_relations (sample_db\<lparr>orders := [sample_order\<lparr>o_status := SHIPPED\<rparr>]\<rparr>)
            (sample_order\<lparr>o_status := SHIPPED\<rparr>)) \<and>
   cancelOrder ''o1'' ''u1'' (sample_db\<lparr>orders := [sample_order\<lparr>o_status := SHIPPED\<rparr>]\<rparr>) =
     (Inl (BadRequestException ''Only pending orders can be cancelled''),
      sample_db\<lparr>orders := [sample_order\<lparr>o_status := SHIPPED\<rparr>]\<rparr>)"
proof -
  have f1: "findOne ''o1'' (Some ''u1'') sample_db = Inr (load_relations sample_db sample_order)"
    by (simp add: findOne_def sample_db_def sample_order_def owner_condition_def truthy_def)
  have f2: "findOne ''o1'' (Some ''u1'') (sample_db\<lparr>orders := [sample_order\<lparr>o_status := SHIPPED\<rparr>]\<rparr>) =
     Inr (load_relations (sample_db\<lparr>orders := [sample_order\<lparr>o_status := SHIPPED\<rparr>]\<rparr>)
            (sample_order\<lparr>o_status := SHIPPED\<rparr>))"
    by (simp add: findOne_def sample_db_def sample_order_def owner_condition_def truthy_def)
  have p: "o_status sample_order = PENDING"
    by (simp add: sample_order_def)
  have d: "distinct (map o_id (orders sample_db))"
    by (simp add: sample_db_def)
  have s: "o_status (lo_order (load_relations sample_db sample_order)) = PENDING"
    by (simp add: load_relations_def sample_order_def)
  have s': "o_status (lo_order (load_relations (sample_db\<lparr>orders := [sample_order\<lparr>o_status := SHIPPED\<rparr>]\<rparr>)
            (sample_order\<lparr>o_status := SHIPPED\<rparr>))) \<in> {PROCESSING, SHIPPED, DELIVERED, CANCELLED}"
    by (simp add: load_relations_def)
  have st: "map p_stock_quantity (products sample_db) = [5]"
    by (simp add: sample_db_def)
  note a = cancelOrder_legality [OF f1]
  note b = cancelOrder_legality [OF f2]
  have o: "map o_status (orders (snd (cancelOrder ''o1'' ''u1'' sample_db))) = [CANCELLED]"
    using a s by (simp add: sample_db_def sample_order_def load_relations_def)
  have q: "map p_stock_quantity (products (snd (cancelOrder ''o1'' ''u1'' sample_db))) = [7]"
    using a s by (simp add: sample_db_def)
  have again: "cancelOrder ''o1'' ''u1'' (snd (cancelOrder ''o1'' ''u1'' sample_db)) =
     (Inl (BadRequestException ''Only pending orders can be cancelled''),
      snd (cancelOrder ''o1'' ''u1'' sample_db))"
    using a s d by blast
  have rej: "cancelOrder ''o1'' ''u1'' (sample_db\<lparr>orders := [sample_order\<lparr>o_status := SHIPPED\<rparr>]\<rparr>) =
     (Inl (BadRequestException ''Only pending orders can be cancelled''),
      sample_db\<lparr>orders := [sample_order\<lparr>o_status := SHIPPED\<rparr>]\<rparr>)"
    using b s' by blast
  show ?thesis
    by (intro conjI) (rule f1 p d o st q again f2 rej)+
qed


subsection \<open>Checkout\<close>

lemma getOrCreateCart_tables:
  "getOrCreateCart fresh u s w = (c, w') \<Longrightarrow>
     products w' = products w \<and> orders w' = orders w \<and> order_items w' = order_items w \<and>
     shipping_addresses w' = shipping_addresses w \<and> cart_items w' = cart_items w \<and>
     users w' = users w \<and> outbox w' = outbox w \<and> console w' = console w"
  by (auto simp: getOrCreateCart_def Let_def split: option.splits if_splits)

lemma getOrCreateCart_items:
  "getOrCreateCart fresh u s w = ((c, its), w') \<Longrightarrow>
     its = filter (\<lambda>i. ci_cart_id i = c_id c) (cart_items w) \<or> its = []"
  by (auto simp: getOrCreateCart_def Let_def split: option.splits if_splits)

lemma getCart_tables:
  "getCart fresh u s w = (cart, w') \<Longrightarrow>
     products w' = products w \<and> orders w' = orders w \<and> order_items w' = order_items w \<and>
     shipping_addresses w' = shipping_addresses w \<and> cart_items w' = cart_items w \<and>
     users w' = users w \<and> outbox w' = outbox w \<and> console w' = console w"
  by (auto simp: getCart_def split: prod.splits dest: getOrCreateCart_tables)

lemma getCart_lines:
  assumes "getCart fresh u s w = (cart, w')"
  shows "\<exists>cid. cr_items cart = map (cart_line w) (filter (\<lambda>i. ci_cart_id i = cid) (cart_items w)) \<or>
               cr_items cart = []"
proof -
  obtain c its where g: "getOrCreateCart fresh u s w = ((c, its), w')"
    using assms by (auto simp: getCart_def split: prod.splits)
  have p: "products w' = products w"
    using getOrCreateCart_tables [OF g] by simp
  have "cart = formatCartResponse w' (c, its)"
    using assms g by (simp add: getCart_def)
  then have "cr_items cart = map (cart_line w) its"
    by (simp add: formatCartResponse_def cart_line_def Let_def p)
  with getOrCreateCart_items [OF g] show ?thesis by auto
qed








lemma createOrder_validate_None:
  "createOrder_validate flt i ps ls = None \<Longrightarrow>
     list_all (\<lambda>l. \<exists>p. find (\<lambda>p. p_id p = cl_product_id l) ps = Some p \<and> cl_quantity l \<le> p_stock_quantity p) ls"
  by (induction ls arbitrary: i) (auto split: if_splits option.splits)

lemma createOrder_validate_insufficient:
  "l \<in> set ls \<Longrightarrow> find (\<lambda>p. p_id p = cl_product_id l) ps = Some p \<Longrightarrow>
     p_stock_quantity p < cl_quantity l \<Longrightarrow> createOrder_validate flt i ps ls \<noteq> None"
  by (induction ls arbitrary: i) (auto split: if_splits option.splits)

lemma createOrder_items_Inr:
  "createOrder_items flt i oid ls w = (Inr its, w') \<Longrightarrow>
     its = map (order_item_of oid) ls \<and> w' = w\<lparr>order_items := order_items w @ its\<rparr>"
proof (induction ls arbitrary: i w its)
  case Nil
  then show ?case by simp
next
  case (Cons l ls)
  from Cons.prems obtain its' where
      r: "createOrder_items flt (Suc i) oid ls (w\<lparr>order_items := order_items w @ [order_item_of oid l]\<rparr>) = (Inr its', w')"
      and i: "its = order_item_of oid l # its'"
    by (auto simp: Let_def split: if_splits prod.splits sum.splits)
  from Cons.IH [OF r] show ?case by (simp add: i)
qed

lemma createOrder_items_tables:
  "createOrder_items flt i oid ls w = (res, w') \<Longrightarrow>
     products w' = products w \<and> orders w' = orders w \<and>
     shipping_addresses w' = shipping_addresses w \<and> cart_items w' = cart_items w \<and> carts w' = carts w \<and>
     users w' = users w \<and> outbox w' = outbox w \<and> console w' = console w"
proof (induction ls arbitrary: i w res)
  case Nil
  then show ?case by auto
next
  case (Cons l ls)
  show ?case
  proof (cases "flt = Some (FailSaveItem i)")
    case True
    with Cons.prems show ?thesis by auto
  next
    case False
    with Cons.prems obtain res' where
        r: "createOrder_items flt (Suc i) oid ls (w\<lparr>order_items := order_items w @ [order_item_of oid l]\<rparr>) = (res', w')"
      by (auto simp: Let_def split: sum.splits prod.splits)
    from Cons.IH [OF r] show ?thesis by simp
  qed
qed

lemma createOrder_reduce_stock_products:
  "createOrder_reduce_stock flt i ls w = (None, w') \<Longrightarrow>
     products w' =
       map (\<lambda>p. p\<lparr>p_stock_quantity := p_stock_quantity p -
                    sum_list (map cl_quantity (filter (\<lambda>l. cl_product_id l = p_id p) ls))\<rparr>) (products w)"
proof (induction ls arbitrary: i w)
  case Nil
  then show ?case by (simp add: map_idI)
next
  case (Cons l ls)
  let ?w = "w\<lparr>products := adjust_stock (cl_product_id l) (- cl_quantity l) (products w)\<rparr>"
  from Cons.prems have r: "createOrder_reduce_stock flt (Suc i) ls ?w = (None, w')"
    by (auto split: if_splits)
  have "products w' =
       map (\<lambda>p. p\<lparr>p_stock_quantity := p_stock_quantity p -
                    sum_list (map cl_quantity (filter (\<lambda>l. cl_product_id l = p_id p) ls))\<rparr>)
         (adjust_stock (cl_product_id l) (- cl_quantity l) (products w))"
    using Cons.IH [OF r] by simp
  also have "\<dots> = map (\<lambda>p. p\<lparr>p_stock_quantity := p_stock_quantity p -
                    sum_list (map cl_quantity (filter (\<lambda>l. cl_product_id l = p_id p) (l # ls)))\<rparr>) (products w)"
    by (auto simp: adjust_stock_def)
  finally show ?case .
qed

lemma createOrder_reduce_stock_tables:
  "createOrder_reduce_stock flt i ls w = (res, w') \<Longrightarrow>
     order_items w' = order_items w \<and> orders w' = orders w \<and>
     shipping_addresses w' = shipping_addresses w \<and> cart_items w' = cart_items w \<and> carts w' = carts w \<and>
     users w' = users w \<and> outbox w' = outbox w \<and> console w' = console w"
proof (induction ls arbitrary: i w)
  case Nil
  then show ?case by auto
next
  case (Cons l ls)
  show ?case
  proof (cases "flt = Some (FailUpdateStock i)")
    case True
    with Cons.prems show ?thesis by auto
  next
    case False
    with Cons.prems have "createOrder_reduce_stock flt (Suc i) ls
        (w\<lparr>products := adjust_stock (cl_product_id l) (- cl_quantity l) (products w)\<rparr>) = (res, w')"
      by simp
    from Cons.IH [OF this] show ?thesis by simp
  qed
qed

lemma clearCart_tables:
  "clearCart flt fresh u s w = (res, w') \<Longrightarrow>
     products w' = products w \<and> orders w' = orders w \<and> order_items w' = order_items w \<and>
     shipping_addresses w' = shipping_addresses w \<and>
     users w' = users w \<and> outbox w' = outbox w \<and> console w' = console w"
  by (auto simp: clearCart_def Let_def split: if_splits prod.splits
        dest!: getOrCreateCart_tables getCart_tables)

lemma createOrder_try_Inr:
  assumes "createOrder_try flt clk fresh userId dto userEmail cart w = (Inr (ord, its, addr), w')"
  shows "createOrder_validate flt 0 (products w) (cr_items cart) = None \<and>
         ord = new_order clk fresh userId dto (generateOrderNumber clk w) (cr_subtotal cart) \<and>
         its = map (order_item_of (new_order_id fresh)) (cr_items cart) \<and>
         addr = new_shipping_address (new_order_id fresh) (dto_shipping_address dto) userEmail \<and>
         \<not> list_ex (\<lambda>r. o_id r = new_order_id fresh) (orders w) \<and>
         orders w' = orders w @ [ord] \<and>
         order_items w' = order_items w @ its \<and>
         shipping_addresses w' = shipping_addresses w @ [addr] \<and>
         products w' =
           map (\<lambda>p. p\<lparr>p_stock_quantity := p_stock_quantity p -
                  sum_list (map cl_quantity (filter (\<lambda>l. cl_product_id l = p_id p) (cr_items cart)))\<rparr>)
               (products w) \<and>
         users w' = users w \<and> outbox w' = outbox w \<and> console w' = console w"
proof -
  let ?ord = "new_order clk fresh userId dto (generateOrderNumber clk w) (cr_subtotal cart)"
  let ?addr = "new_shipping_address (o_id ?ord) (dto_shipping_address dto) userEmail"
  have oid: "o_id ?ord = new_order_id fresh"
    by (simp add: new_order_def)
  from assms obtain w1 w3 r where
      v: "createOrder_validate flt 0 (products w) (cr_items cart) = None"
      and fresh: "\<not> (\<exists>r \<in> set (orders w). o_id r = o_id ?ord \<or> o_order_number r = o_order_number ?ord)"
      and i: "createOrder_items flt 0 (o_id ?ord) (cr_items cart) (w\<lparr>orders := orders w @ [?ord]\<rparr>) = (Inr its, w1)"
      and s: "createOrder_reduce_stock flt 0 (cr_items cart)
                (w1\<lparr>shipping_addresses := shipping_addresses w1 @ [?addr]\<rparr>) = (None, w3)"
      and c: "clearCart flt fresh (Some userId) None w3 = (Inr r, w')"
      and o: "ord = ?ord" and a: "addr = ?addr"
    unfolding createOrder_try_def Let_def
    by (auto split: option.splits if_splits prod.splits sum.splits)
  note i' = createOrder_items_Inr [OF i] createOrder_items_tables [OF i]
  note s' = createOrder_reduce_stock_products [OF s] createOrder_reduce_stock_tables [OF s]
  note c' = clearCart_tables [OF c]
  have nf: "\<not> list_ex (\<lambda>r. o_id r = new_order_id fresh) (orders w)"
    using fresh by (auto simp: list_ex_iff oid)
  show ?thesis
    using v nf i' s' c' by (simp add: o a oid)
qed

lemma rollbackTransaction_same:
  "products w1 = products w0 \<Longrightarrow> orders w1 = orders w0 \<Longrightarrow> order_items w1 = order_items w0 \<Longrightarrow>
   shipping_addresses w1 = shipping_addresses w0 \<Longrightarrow> rollbackTransaction w0 w1 = w1"
  by (simp add: rollbackTransaction_def)

lemma createOrder_Inr:
  assumes "createOrder e flt clk fresh userId dto userEmail userName w = (Inr lo, w')"
  obtains cart w0 ord its addr w1 where
    "getCart fresh (Some userId) None w = (cart, w0)" "cr_items cart \<noteq> []"
    "createOrder_try flt clk fresh userId dto userEmail cart w0 = (Inr (ord, its, addr), w1)"
    "orders w' = orders w1" "order_items w' = order_items w1" "products w' = products w1"
    "shipping_addresses w' = shipping_addresses w1" "users w' = users w1"
    "findOne (o_id ord) (Some userId) w' = Inr lo"
  using assms unfolding createOrder_def Let_def
  by (auto simp: sendOrderConfirmationEmail_def Let_def
        split: if_splits prod.splits sum.splits option.splits)


lemma distinct_cart_products:
  "distinct (map (\<lambda>i. (ci_cart_id i, ci_product_id i)) xs) \<Longrightarrow>
     distinct (map ci_product_id (filter (\<lambda>i. ci_cart_id i = cid) xs))"
  by (induction xs) (auto simp: image_iff)

lemma sum_filter_find:
  "distinct (map cl_product_id ls) \<Longrightarrow>
     sum_list (map cl_quantity (filter (\<lambda>l. cl_product_id l = pid) ls)) =
       (case find (\<lambda>l. cl_product_id l = pid) ls of None \<Rightarrow> 0 | Some l \<Rightarrow> cl_quantity l)"
proof (induction ls)
  case Nil
  then show ?case by simp
next
  case (Cons l ls)
  show ?case
  proof (cases "cl_product_id l = pid")
    case True
    with Cons.prems have "pid \<notin> cl_product_id ` set ls" by auto
    then have "filter (\<lambda>l. cl_product_id l = pid) ls = []"
      by (auto simp: filter_empty_conv)
    with True show ?thesis by simp
  next
    case False
    with Cons show ?thesis by simp
  qed
qed

lemma cart_lines_schema:
  assumes g: "getCart fresh u s w = (cart, w0)" and schema: "schema_constraints w"
  shows "distinct (map cl_product_id (cr_items cart)) \<and>
         list_all (\<lambda>l. decimal_2 (cl_price l) \<and> cl_line_total l = cl_price l * of_int (cl_quantity l))
           (cr_items cart)"
proof -
  from getCart_lines [OF g] obtain cid where
    "cr_items cart = map (cart_line w) (filter (\<lambda>i. ci_cart_id i = cid) (cart_items w)) \<or> cr_items cart = []"
    by blast
  then show ?thesis
  proof
    assume c: "cr_items cart = map (cart_line w) (filter (\<lambda>i. ci_cart_id i = cid) (cart_items w))"
    have "map cl_product_id (cr_items cart) = map ci_product_id (filter (\<lambda>i. ci_cart_id i = cid) (cart_items w))"
      by (simp add: c cart_line_def)
    moreover have "distinct (map ci_product_id (filter (\<lambda>i. ci_cart_id i = cid) (cart_items w)))"
      using schema by (simp add: schema_constraints_def distinct_cart_products)
    moreover have "list_all (\<lambda>l. decimal_2 (cl_price l) \<and> cl_line_total l = cl_price l * of_int (cl_quantity l))
           (cr_items cart)"
      using schema by (auto simp: c schema_constraints_def list_all_iff cart_line_def)
    ultimately show ?thesis by simp
  next
    assume "cr_items cart = []"
    then show ?thesis by simp
  qed
qed



text \<open>
  Claim C2: on a database that meets the schema's constraints, a successful
  \<^verbatim>\<open>createOrder\<close> leaves every product row in place with its stock lowered by the
  quantity of the cart line for that product (by nothing when the cart has no such line);
  and when some cart line asks for more than its product's stock, \<^verbatim>\<open>createOrder\<close>
  fails, whatever else happens, and the products are as before.
\<close>

theorem createOrder_stock:
  assumes schema: "schema_constraints w"
  shows "(createOrder e flt clk fresh userId dto userEmail userName w = (Inr lo, w') \<longrightarrow>
            map p_id (products w') = map p_id (products w) \<and>
            map p_stock_quantity (products w') =
              map (\<lambda>p. p_stock_quantity p -
                     (case find (\<lambda>l. cl_product_id l = p_id p)
                             (cr_items (fst (getCart fresh (Some userId) None w))) of
                        None \<Rightarrow> 0
                      | Some l \<Rightarrow> cl_quantity l))
                  (products w)) \<and>
         (l \<in> set (cr_items (fst (getCart fresh (Some userId) None w))) \<and>
          find (\<lambda>p. p_id p = cl_product_id l) (products w) = Some p \<and>
          p_stock_quantity p < cl_quantity l \<longrightarrow>
            isl (fst (createOrder e flt clk fresh userId dto userEmail userName w)) \<and>
            products (snd (createOrder e flt clk fresh userId dto userEmail userName w)) = products w)"
proof (intro conjI impI)
  assume ok: "createOrder e flt clk fresh userId dto userEmail userName w = (Inr lo, w')"
  from ok obtain cart w0 ord its addr w1 where
      g: "getCart fresh (Some userId) None w = (cart, w0)"
      and t: "createOrder_try flt clk fresh userId dto userEmail cart w0 = (Inr (ord, its, addr), w1)"
      and p': "products w' = products w1"
    by (rule createOrder_Inr)
  note g0 = getCart_tables [OF g]
  note t' = createOrder_try_Inr [OF t]
  have d: "distinct (map cl_product_id (cr_items cart))"
    using cart_lines_schema [OF g schema] by simp
  have p1: "products w' =
           map (\<lambda>p. p\<lparr>p_stock_quantity := p_stock_quantity p -
                  sum_list (map cl_quantity (filter (\<lambda>l. cl_product_id l = p_id p) (cr_items cart)))\<rparr>)
               (products w)"
    using t' g0 p' by simp
  show "map p_id (products w') = map p_id (products w)"
    by (simp add: p1 o_def)
  show "map p_stock_quantity (products w') =
              map (\<lambda>p. p_stock_quantity p -
                     (case find (\<lambda>l. cl_product_id l = p_id p)
                             (cr_items (fst (getCart fresh (Some userId) None w))) of
                        None \<Rightarrow> 0
                      | Some l \<Rightarrow> cl_quantity l))
                  (products w)"
    by (simp add: p1 o_def g sum_filter_find [OF d])
next
  assume a: "l \<in> set (cr_items (fst (getCart fresh (Some userId) None w))) \<and>
          find (\<lambda>p. p_id p = cl_product_id l) (products w) = Some p \<and>
          p_stock_quantity p < cl_quantity l"
  obtain cart w0 where g: "getCart fresh (Some userId) None w = (cart, w0)"
    by (cases "getCart fresh (Some userId) None w")
  note g0 = getCart_tables [OF g]
  have ne: "cr_items cart \<noteq> []" and l: "l \<in> set (cr_items cart)"
    using a g by auto
  have "createOrder_validate flt 0 (products w0) (cr_items cart) \<noteq> None"
    using l a g0 by (intro createOrder_validate_insufficient [of l _ _ p]) simp_all
  then obtain ex where t: "createOrder_try flt clk fresh userId dto userEmail cart w0 = (Inl ex, w0)"
    by (auto simp: createOrder_try_def)
  have r: "rollbackTransaction w0 w0 = w0"
    by (simp add: rollbackTransaction_def)
  show "isl (fst (createOrder e flt clk fresh userId dto userEmail userName w))"
    by (simp add: createOrder_def g ne t)
  show "products (snd (createOrder e flt clk fresh userId dto userEmail userName w)) = products w"
    using g0 by (simp add: createOrder_def g ne t r)
qed

theorem createOrder_stock_witness:
  "schema_constraints sample_db \<and>
   \<not> isl (fst (createOrder sample_env None sample_clock sample_fresh ''u1'' sample_dto
                  ''ann@example.com'' ''Ann'' sample_db)) \<and>
   map p_stock_quantity (products sample_db) = [5] \<and>
   map cl_quantity (cr_items (fst (getCart sample_fresh (Some ''u1'') None sample_db))) = [2] \<and>
   map p_stock_quantity (products (snd (createOrder sample_env None sample_clock sample_fresh ''u1''
                  sample_dto ''ann@example.com'' ''Ann'' sample_db))) = [3] \<and>
   schema_constraints sample_db_low \<and>
   map p_stock_quantity (products sample_db_low) = [1] \<and>
   map cl_quantity (cr_items (fst (getCart sample_fresh (Some ''u1'') None sample_db_low))) = [2] \<and>
   isl (fst (createOrder sample_env None sample_clock sample_fresh ''u1'' sample_dto
                  ''ann@example.com'' ''Ann'' sample_db_low)) \<and>
   products (snd (createOrder sample_env None sample_clock sample_fresh ''u1'' sample_dto
                  ''ann@example.com'' ''Ann'' sample_db_low)) = products sample_db_low"
proof -
  let ?run = "createOrder sample_env None sample_clock sample_fresh ''u1'' sample_dto
                  ''ann@example.com'' ''Ann'' sample_db"
  let ?l = "\<lparr> cl_product_id = ''A'', cl_product_name = Some ''Apple'', cl_quantity = 2,
             cl_price = 10, cl_line_total = 20 \<rparr>"
  let ?p = "\<lparr> p_id = ''A'', p_name = ''Apple'', p_price = 10, p_stock_quantity = 1 \<rparr>"
  have schema: "schema_constraints sample_db" and schema': "schema_constraints sample_db_low"
    by code_simp+
  have ok: "\<not> isl (fst ?run)"
    by code_simp
  then have run: "?run = (Inr (projr (fst ?run)), snd ?run)"
    by (cases "fst ?run") (simp_all add: prod_eq_iff)
  have st: "map p_stock_quantity (products sample_db) = [5]"
    and st': "map p_stock_quantity (products sample_db_low) = [1]"
    by (simp_all add: sample_db_def sample_db_low_def)
  have q: "map cl_quantity (cr_items (fst (getCart sample_fresh (Some ''u1'') None sample_db))) = [2]"
    and q': "map cl_quantity (cr_items (fst (getCart sample_fresh (Some ''u1'') None sample_db_low))) = [2]"
    by code_simp+
  have low: "?l \<in> set (cr_items (fst (getCart sample_fresh (Some ''u1'') None sample_db_low))) \<and>
          find (\<lambda>p. p_id p = cl_product_id ?l) (products sample_db_low) = Some ?p \<and>
          p_stock_quantity ?p < cl_quantity ?l"
    by code_simp
  note a = createOrder_stock [OF schema, where e = sample_env and flt = None and clk = sample_clock
      and fresh = sample_fresh and userId = "''u1''" and dto = sample_dto
      and userEmail = "''ann@example.com''" and userName = "''Ann''"
      and lo = "projr (fst ?run)" and w' = "snd ?run"]
  note b = createOrder_stock [OF schema', where e = sample_env and flt = None and clk = sample_clock
      and fresh = sample_fresh and userId = "''u1''" and dto = sample_dto
      and userEmail = "''ann@example.com''" and userName = "''Ann''" and l = ?l and p = ?p]
  have fails: "isl (fst (createOrder sample_env None sample_clock sample_fresh ''u1'' sample_dto
                  ''ann@example.com'' ''Ann'' sample_db_low))"
    and same: "products (snd (createOrder sample_env None sample_clock sample_fresh ''u1'' sample_dto
                  ''ann@example.com'' ''Ann'' sample_db_low)) = products sample_db_low"
    using b low by blast+
  have "map p_stock_quantity (products (snd ?run)) =
          map (\<lambda>p. p_stock_quantity p -
                 (case find (\<lambda>l. cl_product_id l = p_id p)
                         (cr_items (fst (getCart sample_fresh (Some ''u1'') None sample_db))) of
                    None \<Rightarrow> 0
                  | Some l \<Rightarrow> cl_quantity l))
              (products sample_db)"
    using a run by blast
  also have "\<dots> = [3]"
    by code_simp
  finally have after: "map p_stock_quantity (products (snd ?run)) = [3]" .
  show ?thesis
    by (intro conjI) (rule schema ok st q after schema' st' q' fails same)+
qed

lemma createOrder_try_Inl_cart:
  assumes "createOrder_try flt clk fresh userId dto userEmail cart w = (Inl ex, w')"
      and "flt \<noteq> Some FailClearCartReload" and "flt \<noteq> Some FailCommit"
  shows "cart_items w' = cart_items w"
  using assms unfolding createOrder_try_def Let_def clearCart_def
  by (auto split: option.splits if_splits prod.splits sum.splits
        dest!: createOrder_items_tables createOrder_reduce_stock_tables getOrCreateCart_tables getCart_tables)

text \<open>
  Every other failure of \<^verbatim>\<open>createOrder\<close> before the commit leaves the products, the
  orders, their items and addresses and the cart's items as they were.
\<close>

lemma createOrder_failure_atomic:
  assumes run: "createOrder e flt clk fresh userId dto userEmail userName w = (Inl ex, w')"
      and "flt \<noteq> Some FailClearCartReload" and "flt \<noteq> Some FailCommit" and "flt \<noteq> Some FailFindOne"
  shows "products w' = products w \<and> orders w' = orders w \<and> order_items w' = order_items w \<and>
         shipping_addresses w' = shipping_addresses w \<and> cart_items w' = cart_items w"
proof (cases "flt = Some FailGetCart")
  case True
  with run show ?thesis by (simp add: createOrder_def)
next
  case False
  obtain cart w0 where g: "getCart fresh (Some userId) None w = (cart, w0)"
    by (cases "getCart fresh (Some userId) None w")
  note g0 = getCart_tables [OF g]
  show ?thesis
  proof (cases "cr_items cart = [] \<or> flt = Some FailStartTransaction")
    case True
    with run False g have "w' = w0" by (auto simp: createOrder_def split: if_splits)
    with g0 show ?thesis by simp
  next
    case go: False
    obtain res w1 where t: "createOrder_try flt clk fresh userId dto userEmail cart w0 = (res, w1)"
      by (cases "createOrder_try flt clk fresh userId dto userEmail cart w0")
    show ?thesis
    proof (cases res)
      case (Inl ex')
      with run False g go t have w': "w' = rollbackTransaction w0 w1"
        by (simp add: createOrder_def)
      have "cart_items w1 = cart_items w0"
        using t Inl assms(2,3) by (auto dest: createOrder_try_Inl_cart)
      with g0 show ?thesis by (simp add: w' rollbackTransaction_def)
    next
      case (Inr triple)
      obtain ord its addr where triple: "triple = (ord, its, addr)"
        by (cases triple)
      note t' = createOrder_try_Inr [OF t [unfolded Inr triple]]
      let ?w2 = "sendOrderConfirmationEmail e
                   (case or_else (sa_email addr) (Some userEmail) of None \<Rightarrow> userEmail | Some a \<Rightarrow> a)
                   (d_first_name (dto_shipping_address dto)) ord its w1"
      have "orders ?w2 = orders w0 @ [ord]"
        using t' by (simp add: sendOrderConfirmationEmail_def Let_def)
      moreover have "o_id ord = o_id ord \<and> owner_condition (Some userId) ord"
        using t' by (simp add: owner_condition_def new_order_def)
      ultimately have "find (\<lambda>r. o_id r = o_id ord \<and> owner_condition (Some userId) r) (orders ?w2) \<noteq> None"
        by (auto simp: find_None_iff)
      then have "\<exists>lo. findOne (o_id ord) (Some userId) ?w2 = Inr lo"
        by (auto simp: findOne_def split: option.splits)
      with run False g go t Inr triple assms(4) show ?thesis
        by (auto simp: createOrder_def Let_def)
    qed
  qed
qed

text \<open>
  Claim C1 does not hold of the code: \<^verbatim>\<open>clearCart\<close> deletes the cart's items outside the
  transaction. When its last read fails after the delete, the order, its item, the address
  and the stock are rolled back, and the cart is empty all the same.
\<close>

theorem createOrder_cart_cleared_without_order:
  "cart_items sample_db =
     [\<lparr> ci_cart_id = ''c1'', ci_product_id = ''A'', ci_quantity = 2, ci_price = 10 \<rparr>] \<and>
   createOrder sample_env (Some FailClearCartReload) sample_clock sample_fresh ''u1'' sample_dto
     ''ann@example.com'' ''Ann'' sample_db =
     (Inl database_error, sample_db\<lparr>cart_items := []\<rparr>)"
  by code_simp


end
